theory Spec2Isabelle
  imports Main "HOL-Library.Word"
begin

section \<open>JavaScript strings\<close>

text \<open>
  A JavaScript string is a sequence of UTF-16 code units.  The literals of the sources that
  are plain ASCII are written as HOL strings and converted with \<open>asc\<close>; the Chinese
  literals are given by their code units.
\<close>

type_synonym jstring = "16 word list"

definition asc :: "string \<Rightarrow> jstring" where
  "asc s = map of_char s"

text \<open>\<^verbatim>\<open>s.startsWith(p)\<close>, the test \<^verbatim>\<open>indexOf\<close> makes at every position.\<close>

fun startsWith :: "jstring \<Rightarrow> jstring \<Rightarrow> bool" where
  "startsWith s [] = True"
| "startsWith [] (p # ps) = False"
| "startsWith (c # cs) (p # ps) = (c = p \<and> startsWith cs ps)"

text \<open>The left-to-right scan of \<^verbatim>\<open>s.indexOf(p)\<close>; \<open>i\<close> is the position reached.\<close>

fun indexOf_from :: "jstring \<Rightarrow> jstring \<Rightarrow> nat \<Rightarrow> nat option" where
  "indexOf_from [] p i = (if p = [] then Some i else None)"
| "indexOf_from (c # cs) p i =
     (if startsWith (c # cs) p then Some i else indexOf_from cs p (Suc i))"

text \<open>\<^verbatim>\<open>s.indexOf(p)\<close>: the first position of \<open>p\<close> in \<open>s\<close>, or \<open>-1\<close>.\<close>

definition indexOf :: "jstring \<Rightarrow> jstring \<Rightarrow> int" where
  "indexOf s p = (case indexOf_from s p 0 of None \<Rightarrow> - 1 | Some i \<Rightarrow> int i)"

text \<open>\<^verbatim>\<open>s.includes(p)\<close>.\<close>

definition includes_str :: "jstring \<Rightarrow> jstring \<Rightarrow> bool" where
  "includes_str s p = (indexOf_from s p 0 \<noteq> None)"

text \<open>
  \<^verbatim>\<open>s.substring(a, b)\<close>: both indices are clamped to \<open>0 .. length s\<close> and swapped when
  \<open>a > b\<close>.  \<^verbatim>\<open>s.substring(a)\<close> runs to the end of the string.
\<close>

definition clamp_index :: "jstring \<Rightarrow> int \<Rightarrow> nat" where
  "clamp_index s i = min (nat i) (length s)"

definition substring :: "jstring \<Rightarrow> int \<Rightarrow> int \<Rightarrow> jstring" where
  "substring s a b =
     (let lo = min (clamp_index s a) (clamp_index s b);
          hi = max (clamp_index s a) (clamp_index s b)
      in take (hi - lo) (drop lo s))"

definition substring_from :: "jstring \<Rightarrow> int \<Rightarrow> jstring" where
  "substring_from s a = drop (clamp_index s a) s"

text \<open>
  The code units \<^verbatim>\<open>trim()\<close> strips: ECMAScript's WhiteSpace and LineTerminator
  (tab, LF, VT, FF, CR, space, NBSP, U+1680, U+2000 to U+200A, U+2028, U+2029, U+202F,
  U+205F, U+3000, U+FEFF).
\<close>

definition isWhiteSpace :: "16 word \<Rightarrow> bool" where
  "isWhiteSpace c =
     (c \<in> {9, 10, 11, 12, 13, 32, 160, 5760, 8232, 8233, 8239, 8287, 12288, 65279}
      \<or> (8192 \<le> c \<and> c \<le> 8202))"

definition trim :: "jstring \<Rightarrow> jstring" where
  "trim s = rev (dropWhile isWhiteSpace (rev (dropWhile isWhiteSpace s)))"

text \<open>\<^verbatim>\<open>xs.join(sep)\<close> on an array of strings.\<close>

fun join :: "jstring \<Rightarrow> jstring list \<Rightarrow> jstring" where
  "join sep [] = []"
| "join sep [x] = x"
| "join sep (x # y # ys) = x @ sep @ join sep (y # ys)"

text \<open>
  \<^verbatim>\<open>xs.slice(-limit)\<close>: the last \<open>limit\<close> elements, all of them when there are fewer;
  \<^verbatim>\<open>slice(-0)\<close> is \<^verbatim>\<open>slice(0)\<close>, the whole array.
\<close>

definition slice_last :: "'a list \<Rightarrow> nat \<Rightarrow> 'a list" where
  "slice_last xs limit = (if limit = 0 then xs else drop (length xs - limit) xs)"

text \<open>A non-negative integer in a template literal: its decimal digits.\<close>

fun toString :: "nat \<Rightarrow> jstring" where
  "toString n =
     (if n < 10 then [of_nat (48 + n)]
      else toString (n div 10) @ [of_nat (48 + n mod 10)])"

section \<open>The generation client\<close>

text \<open>
  What JavaScript can throw: an \<^verbatim>\<open>Error\<close> instance with its message (\<^verbatim>\<open>TypeError\<close> and
  \<^verbatim>\<open>SyntaxError\<close> are such instances), or any other value.
\<close>

datatype js_exn = Error jstring | NonError

text \<open>
  The parsed JSON of a success response, as far as \<^verbatim>\<open>callGemini\<close> reads it.  A candidate
  is the outcome of reading \<^verbatim>\<open>.content.parts[0].text\<close> from it: the text, or the
  \<^verbatim>\<open>TypeError\<close> (with the engine's message) raised when a property on that path is
  missing.  \<open>Nullish\<close> is a body that parses to \<^verbatim>\<open>null\<close>, on which reading
  \<^verbatim>\<open>.candidates\<close> raises a \<^verbatim>\<open>TypeError\<close>; \<open>Data None\<close> is a value whose
  \<^verbatim>\<open>candidates\<close> is absent or falsy, \<open>Data (Some cs)\<close> one whose \<^verbatim>\<open>candidates\<close>
  is the array \<open>cs\<close>.
\<close>

datatype candidate = Text jstring | Unreadable jstring

datatype json_data = Nullish jstring | Data "candidate list option"

text \<open>
  The \<^verbatim>\<open>Response\<close> of \<^verbatim>\<open>fetch\<close>: \<open>response_text\<close> and \<open>response_json\<close> are the
  outcomes of \<^verbatim>\<open>await response.text()\<close> and \<^verbatim>\<open>await response.json()\<close>.
\<close>

record response =
  ok :: bool
  status :: nat
  statusText :: jstring
  response_text :: "js_exn + jstring"
  response_json :: "js_exn + json_data"

text \<open>
  The request handed to \<^verbatim>\<open>fetch\<close>: always a POST with a JSON body whose generation
  configuration is fixed (temperature 0.7, at most 2000 output tokens); the fields below
  are the parts that vary.  \<open>req_systemInstruction\<close> is present when the argument is truthy.
\<close>

record request =
  req_url :: jstring
  req_contents :: jstring
  req_systemInstruction :: "jstring option"

text \<open>
  The synchronous part of \<^verbatim>\<open>callGemini\<close>, up to \<^verbatim>\<open>await fetch(...)\<close>: the credential
  check, then the request that is sent.
\<close>

definition callGemini_request ::
  "jstring \<Rightarrow> jstring \<Rightarrow> jstring \<Rightarrow> jstring option \<Rightarrow> js_exn + request" where
  "callGemini_request apiKey model prompt systemInstruction =
     (if apiKey = [] \<or> trim apiKey = [] then Inl (Error (asc ''API key is empty or missing''))
      else Inr \<lparr>req_url = asc ''https://generativelanguage.googleapis.com/v1beta/models/'' @ model
                       @ asc '':generateContent?key='' @ apiKey,
                 req_contents = prompt,
                 req_systemInstruction =
                   (case systemInstruction of None \<Rightarrow> None
                    | Some s \<Rightarrow> if s = [] then None else Some s)\<rparr>)"

text \<open>The body of the \<^verbatim>\<open>try\<close> block once \<^verbatim>\<open>fetch\<close> has settled with \<open>net\<close>.\<close>

definition callGemini_try :: "js_exn + response \<Rightarrow> js_exn + jstring" where
  "callGemini_try net =
     (case net of
        Inl e \<Rightarrow> Inl e
      | Inr r \<Rightarrow>
          if \<not> ok r then
            (case response_text r of
               Inl e \<Rightarrow> Inl e
             | Inr errorText \<Rightarrow>
                 Inl (Error (asc ''API Error '' @ toString (status r) @ asc '': ''
                             @ statusText r @ asc ''. '' @ errorText)))
          else
            (case response_json r of
               Inl e \<Rightarrow> Inl e
             | Inr (Nullish m) \<Rightarrow> Inl (Error m)
             | Inr (Data None) \<Rightarrow> Inl (Error (asc ''No candidates returned from API''))
             | Inr (Data (Some [])) \<Rightarrow> Inl (Error (asc ''No candidates returned from API''))
             | Inr (Data (Some (Text t # cs))) \<Rightarrow> Inr t
             | Inr (Data (Some (Unreadable m # cs))) \<Rightarrow> Inl (Error m)))"

text \<open>The \<^verbatim>\<open>catch\<close> block: an \<^verbatim>\<open>Error\<close> is thrown again, anything else is replaced.\<close>

definition callGemini_catch :: "js_exn + jstring \<Rightarrow> js_exn + jstring" where
  "callGemini_catch r =
     (case r of
        Inl (Error m) \<Rightarrow> Inl (Error m)
      | Inl NonError \<Rightarrow> Inl (Error (asc ''Unknown error occurred during API call''))
      | Inr t \<Rightarrow> Inr t)"

text \<open>What \<^verbatim>\<open>callGemini\<close> settles with once \<^verbatim>\<open>fetch\<close> has settled with \<open>net\<close>.\<close>

definition callGemini_response :: "js_exn + response \<Rightarrow> js_exn + jstring" where
  "callGemini_response net = callGemini_catch (callGemini_try net)"

text \<open>
  \<^verbatim>\<open>callGemini\<close> as a whole: the requests it sent and what its promise settles with, when
  the network answers its request with \<open>net\<close>.
\<close>

definition callGemini ::
  "jstring \<Rightarrow> jstring \<Rightarrow> jstring \<Rightarrow> jstring option \<Rightarrow> js_exn + response
     \<Rightarrow> request list \<times> (js_exn + jstring)" where
  "callGemini apiKey model prompt systemInstruction net =
     (case callGemini_request apiKey model prompt systemInstruction of
        Inl e \<Rightarrow> ([], Inl e)
      | Inr req \<Rightarrow> ([req], callGemini_response net))"

section \<open>The conversation orchestrator\<close>

subsection \<open>Data\<close>

datatype msg_role = User | Agent | System

text \<open>The role as the string a template literal prints.\<close>

fun role_string :: "msg_role \<Rightarrow> jstring" where
  "role_string User = asc ''user''"
| "role_string Agent = asc ''agent''"
| "role_string System = asc ''system''"

record Message =
  msg_id :: jstring
  role :: msg_role
  content :: jstring
  agentName :: "jstring option"
  timestamp :: nat

datatype AgentRole = PROFILER | SPECIALIST | CRITIC | HOST

record AgentState =
  currentRole :: AgentRole
  userProfile :: jstring
  currentDemand :: jstring
  recommendations :: jstring
  history :: "Message list"
  stateHistory :: "AgentRole list"

text \<open>
  The object: its state and the two settings fixed by the constructor.  The two callbacks
  are not fields of the model; their calls are recorded as events.  The history is a
  value here: the array that \<^verbatim>\<open>setHistory\<close> receives is shared with the caller in the
  source, and what the caller does to it between two calls is a call of \<^verbatim>\<open>setHistory\<close>
  in the model.
\<close>

record AgentSystem =
  state :: AgentState
  apiKey :: jstring
  model :: jstring

text \<open>
  What a run does to the outside, in order: a call of \<^verbatim>\<open>onAgentChange\<close>, a call of
  \<^verbatim>\<open>onMessageUpdate\<close>, a request sent by \<^verbatim>\<open>fetch\<close>.
\<close>

datatype event = AgentChange jstring | MessageUpdate "Message list" | Fetch request

text \<open>
  What \<^verbatim>\<open>addAgentMessage\<close> reads from the clock and the random generator: the two readings
  of \<^verbatim>\<open>Date.now()\<close> (for the id and for the timestamp) and the string
  \<^verbatim>\<open>Math.random().toString(36).substr(2, 9)\<close>.
\<close>

record stamp =
  stamp_now :: nat
  stamp_random :: jstring
  stamp_time :: nat

text \<open>
  An asynchronous run that nothing awaits: waiting for the critic's answer, waiting for the
  host's answer, or settled (fulfilled, or rejected with what was thrown).
\<close>

datatype task = AwaitCritic | AwaitHost | Settled "js_exn + unit"

text \<open>
  One call of an asynchronous method, at the moment its promise settles: how it settled,
  the object then, the events so far, and the run it started without awaiting it.
\<close>

record turn =
  outcome :: "js_exn + unit"
  system :: AgentSystem
  trace :: "event list"
  detached :: "task option"

subsection \<open>Construction, history, navigation\<close>

definition new_AgentSystem :: "jstring \<Rightarrow> jstring \<Rightarrow> AgentSystem" where
  "new_AgentSystem k m =
     \<lparr>state = \<lparr>currentRole = PROFILER, userProfile = [], currentDemand = [],
               recommendations = [], history = [], stateHistory = [PROFILER]\<rparr>,
      apiKey = k, model = m\<rparr>"

definition setHistory :: "AgentSystem \<Rightarrow> Message list \<Rightarrow> AgentSystem" where
  "setHistory this h = this\<lparr>state := (state this)\<lparr>history := h\<rparr>\<rparr>"

definition backwardKeywords :: "jstring list" where
  "backwardKeywords =
     [[36820, 22238], [19978, 19968, 27493], [22238, 21435],
      [36864, 22238], [37325, 26032], [37325, 26469]]"

definition isBackwardRequest :: "jstring \<Rightarrow> bool" where
  "isBackwardRequest txt = list_ex (\<lambda>keyword. includes_str txt keyword) backwardKeywords"

definition transitionTo :: "AgentSystem \<Rightarrow> AgentRole \<Rightarrow> AgentSystem" where
  "transitionTo this newRole =
     this\<lparr>state := (state this)\<lparr>stateHistory := stateHistory (state this) @ [newRole],
                                 currentRole := newRole\<rparr>\<rparr>"

text \<open>The object literal \<^verbatim>\<open>msg\<close> of \<^verbatim>\<open>addAgentMessage\<close>.\<close>

definition agent_message :: "jstring \<Rightarrow> jstring \<Rightarrow> stamp \<Rightarrow> Message" where
  "agent_message nm txt s =
     \<lparr>msg_id = asc ''agent-'' @ toString (stamp_now s) @ asc ''-'' @ stamp_random s,
      role = Agent, content = txt, agentName = Some nm, timestamp = stamp_time s\<rparr>"

definition addAgentMessage ::
  "AgentSystem \<Rightarrow> jstring \<Rightarrow> jstring \<Rightarrow> stamp \<Rightarrow> AgentSystem \<times> event list" where
  "addAgentMessage this nm txt s =
     (let msg = agent_message nm txt s
      in (this\<lparr>state := (state this)\<lparr>history := history (state this) @ [msg]\<rparr>\<rparr>,
          [MessageUpdate [msg]]))"

definition addSystemMessage ::
  "AgentSystem \<Rightarrow> jstring \<Rightarrow> stamp \<Rightarrow> AgentSystem \<times> event list" where
  "addSystemMessage this txt s = addAgentMessage this (asc ''System'') txt s"

definition goBack_refused :: jstring where
  "goBack_refused =
     [24050, 32463, 26159, 31532, 19968, 27493, 20102, 65292, 26080, 27861, 36820, 22238,
      26356, 26089, 30340, 38454, 27573, 12290]"

definition goBack_profiler :: jstring where
  "goBack_profiler =
     [22909, 30340, 65292, 35753, 25105, 20204, 37325, 26032, 24320, 22987, 12290, 35831,
      21578, 35785, 25105, 24744, 26368, 21916, 27426, 30340, 19977, 37096, 30005, 24433,
      65311]"

definition goBack_specialist :: jstring where
  "goBack_specialist =
     [26126, 30333, 65292, 35753, 25105, 20204, 37325, 26032, 30830, 35748, 12290, 24744,
      20170, 22825, 24819, 30475, 20160, 20040, 31867, 22411, 30340, 30005, 24433, 65311,
      21050, 28608, 30340, 12289, 24863, 21160, 30340, 36824, 26159, 36731, 26494, 30340,
      65311]"

definition goBack_host :: jstring where
  "goBack_host =
     [22909, 30340, 65292, 26377, 20160, 20040, 38656, 35201, 25105, 37325, 26032, 25512,
      33616, 30340, 21527, 65311]"

text \<open>
  \<^verbatim>\<open>goBack\<close>: the returned flag, the object and the events.  In the second branch the
  stack had at least two entries, so after \<^verbatim>\<open>pop()\<close> its last entry exists.
\<close>

definition goBack :: "AgentSystem \<Rightarrow> stamp \<Rightarrow> bool \<times> AgentSystem \<times> event list" where
  "goBack this s =
     (if length (stateHistory (state this)) \<le> 1 then
        (let (this1, ev) = addAgentMessage this (asc ''System'') goBack_refused s
         in (False, this1, ev))
      else
        (let popped = butlast (stateHistory (state this));
             previousRole = last popped;
             this1 = this\<lparr>state := (state this)\<lparr>stateHistory := popped,
                                                 currentRole := previousRole\<rparr>\<rparr>
         in if previousRole = PROFILER then
              (let this2 = this1\<lparr>state := (state this1)\<lparr>userProfile := [],
                                     currentDemand := [], recommendations := []\<rparr>\<rparr>;
                   (this3, ev) = addAgentMessage this2 (asc ''Profiler'') goBack_profiler s
               in (True, this3, ev))
            else if previousRole = SPECIALIST then
              (let this2 = this1\<lparr>state := (state this1)\<lparr>currentDemand := [],
                                     recommendations := []\<rparr>\<rparr>;
                   (this3, ev) =
                     addAgentMessage this2 (asc ''Genre Specialist'') goBack_specialist s
               in (True, this3, ev))
            else if previousRole = HOST then
              (let (this3, ev) = addAgentMessage this1 (asc ''Host'') goBack_host s
               in (True, this3, ev))
            else (True, this1, [])))"

fun getAgentName :: "AgentRole \<Rightarrow> jstring" where
  "getAgentName PROFILER = asc ''Profiler''"
| "getAgentName SPECIALIST = asc ''Genre Specialist''"
| "getAgentName CRITIC = asc ''Critic''"
| "getAgentName HOST = asc ''Host''"

definition buildContext :: "AgentSystem \<Rightarrow> nat \<Rightarrow> jstring" where
  "buildContext this limit =
     join (asc ''\<newline>'')
       (map (\<lambda>m. role_string (role m) @ asc '': '' @ content m)
            (slice_last (history (state this)) limit))"

subsection \<open>The stages\<close>

text \<open>
  The prompt library \<^verbatim>\<open>PROMPTS\<close> is imported from a module that is not among the sources;
  it is a parameter here, a system instruction for each stage.
\<close>

definition PROFILE_READY :: jstring where
  "PROFILE_READY = asc ''||PROFILE_READY||''"

definition DEMAND_LOCKED :: jstring where
  "DEMAND_LOCKED = asc ''||DEMAND_LOCKED||''"

definition runProfiler_prompt :: "jstring \<Rightarrow> jstring \<Rightarrow> jstring" where
  "runProfiler_prompt userInput ctx =
     asc ''\<newline>      User Input: '' @ [34]
     @ userInput
     @ [34] @ asc ''\<newline>      Conversation History:\<newline>      ''
     @ ctx
     @ asc ''\<newline>      \<newline>      CRITICAL: You must ALWAYS output the ||PROFILE_READY|| marker after analyzing user's response!\<newline>      Format: First provide your response, then on a new line add: ||PROFILE_READY|| [keywords]\<newline>      \<newline>      Example output:\<newline>      Your analysis and question...\<newline>      \<newline>      ||PROFILE_READY|| keyword1, keyword2, keyword3\<newline>    ''"

definition runSpecialist_prompt :: "jstring \<Rightarrow> jstring \<Rightarrow> jstring \<Rightarrow> jstring" where
  "runSpecialist_prompt profile userInput ctx =
     asc ''\<newline>        User Profile (Known): ''
     @ profile
     @ asc ''\<newline>        Current Input: '' @ [34]
     @ userInput
     @ [34] @ asc ''\<newline>        History: ''
     @ ctx
     @ asc ''\<newline>      ''"

definition criticPrompt :: "jstring \<Rightarrow> jstring \<Rightarrow> jstring" where
  "criticPrompt profile demand =
     asc ''\<newline>          User Profile: ''
     @ profile
     @ asc ''\<newline>          Current Request: ''
     @ demand
     @ asc ''\<newline>          \<newline>          Analyze and recommend 2 perfect movies. Return ONLY the JSON-like format as specified in your instructions.\<newline>      ''"

definition hostPrompt :: "jstring \<Rightarrow> jstring \<Rightarrow> jstring \<Rightarrow> jstring" where
  "hostPrompt recs profile demand =
     asc ''\<newline>        Critic Recommendations:\<newline>        ''
     @ recs
     @ asc ''\<newline>        \<newline>        User Profile: ''
     @ profile
     @ asc ''\<newline>        User Request: ''
     @ demand
     @ asc ''\<newline>        \<newline>        Present these to the user warmly.\<newline>      ''"

definition runHost_prompt :: "jstring \<Rightarrow> jstring \<Rightarrow> jstring \<Rightarrow> jstring" where
  "runHost_prompt userInput ctx recs =
     asc ''\<newline>         User Input: ''
     @ userInput
     @ asc ''\<newline>         History: ''
     @ ctx
     @ asc ''\<newline>         Previous Recommendations: ''
     @ recs
     @ asc ''\<newline>         \<newline>         Continue chatting, answer questions about the recommendation, or recommend something else if they hate it.\<newline>      ''"

definition runProfiler ::
  "(AgentRole \<Rightarrow> jstring) \<Rightarrow> AgentSystem \<Rightarrow> jstring \<Rightarrow> stamp \<Rightarrow> js_exn + response \<Rightarrow> turn"
  where
  "runProfiler PROMPTS this userInput s net =
     (let ctx = buildContext this 5;
          prompt = runProfiler_prompt userInput ctx;
          (sent, result) =
            callGemini (apiKey this) (model this) prompt (Some (PROMPTS PROFILER)) net
      in case result of
           Inl e \<Rightarrow> \<lparr>outcome = Inl e, system = this, trace = map Fetch sent, detached = None\<rparr>
         | Inr resp \<Rightarrow>
             if includes_str resp PROFILE_READY then
               (let markerIndex = indexOf resp PROFILE_READY;
                    reply = trim (substring resp 0 markerIndex);
                    profileData =
                      trim (substring_from resp (markerIndex + int (length PROFILE_READY)));
                    this1 = this\<lparr>state := (state this)\<lparr>userProfile := profileData\<rparr>\<rparr>;
                    (this2, ev) = addAgentMessage this1 (asc ''Profiler'') reply s;
                    this3 = transitionTo this2 SPECIALIST
                in \<lparr>outcome = Inr (), system = this3, trace = map Fetch sent @ ev,
                    detached = None\<rparr>)
             else
               (let (this1, ev) = addAgentMessage this (asc ''Profiler'') resp s
                in \<lparr>outcome = Inr (), system = this1, trace = map Fetch sent @ ev,
                    detached = None\<rparr>))"

text \<open>
  \<^verbatim>\<open>runCriticAndHost\<close> is asynchronous and runs in three parts.  The first, up to the
  first \<^verbatim>\<open>await\<close>, runs inside the call itself: the notification, then the synchronous
  part of \<^verbatim>\<open>callGemini\<close>, which sends the critic's request.  A credential rejected there
  rejects the promise of \<^verbatim>\<open>runCriticAndHost\<close>; nothing is thrown to the caller.
\<close>

definition runCriticAndHost_start ::
  "(AgentRole \<Rightarrow> jstring) \<Rightarrow> AgentSystem \<Rightarrow> AgentSystem \<times> event list \<times> task" where
  "runCriticAndHost_start PROMPTS this =
     (let prompt = criticPrompt (userProfile (state this)) (currentDemand (state this))
      in case callGemini_request (apiKey this) (model this) prompt (Some (PROMPTS CRITIC)) of
           Inl e \<Rightarrow> (this, [AgentChange (asc ''Critic Agent'')], Settled (Inl e))
         | Inr req \<Rightarrow> (this, [AgentChange (asc ''Critic Agent''), Fetch req], AwaitCritic))"

text \<open>
  The second part runs when the critic's request has settled with \<open>net\<close>, on the object as
  it is then: a failure rejects the promise; an answer is stored, the stage becomes
  \<open>HOST\<close> and the host's request is sent.
\<close>

definition runCriticAndHost_critic ::
  "(AgentRole \<Rightarrow> jstring) \<Rightarrow> AgentSystem \<Rightarrow> js_exn + response
     \<Rightarrow> AgentSystem \<times> event list \<times> task" where
  "runCriticAndHost_critic PROMPTS this net =
     (case callGemini_response net of
        Inl e \<Rightarrow> (this, [], Settled (Inl e))
      | Inr criticResponse \<Rightarrow>
          (let this1 = this\<lparr>state := (state this)\<lparr>recommendations := criticResponse\<rparr>\<rparr>;
               this2 = transitionTo this1 HOST;
               prompt = hostPrompt (recommendations (state this2)) (userProfile (state this2))
                          (currentDemand (state this2))
           in case callGemini_request (apiKey this2) (model this2) prompt (Some (PROMPTS HOST)) of
                Inl e \<Rightarrow> (this2, [AgentChange (asc ''Host Agent'')], Settled (Inl e))
              | Inr req \<Rightarrow> (this2, [AgentChange (asc ''Host Agent''), Fetch req], AwaitHost)))"

text \<open>The third part runs when the host's request has settled with \<open>net\<close>.\<close>

definition runCriticAndHost_host ::
  "AgentSystem \<Rightarrow> stamp \<Rightarrow> js_exn + response \<Rightarrow> AgentSystem \<times> event list \<times> task" where
  "runCriticAndHost_host this s net =
     (case callGemini_response net of
        Inl e \<Rightarrow> (this, [], Settled (Inl e))
      | Inr hostResponse \<Rightarrow>
          (let (this1, ev) = addAgentMessage this (asc ''Host'') hostResponse s
           in (this1, ev, Settled (Inr ()))))"

text \<open>A request of the unawaited run settles: the run continues from where it waits.\<close>

definition resume ::
  "(AgentRole \<Rightarrow> jstring) \<Rightarrow> task \<Rightarrow> AgentSystem \<Rightarrow> stamp \<Rightarrow> js_exn + response
     \<Rightarrow> AgentSystem \<times> event list \<times> task" where
  "resume PROMPTS tk this s net =
     (case tk of
        AwaitCritic \<Rightarrow> runCriticAndHost_critic PROMPTS this net
      | AwaitHost \<Rightarrow> runCriticAndHost_host this s net
      | Settled r \<Rightarrow> (this, [], Settled r))"

text \<open>
  \<^verbatim>\<open>runCriticAndHost\<close> from its call to its end with nothing else running in between:
  \<open>netC\<close> answers the critic's request and \<open>netH\<close> the host's.
\<close>

definition runCriticAndHost ::
  "(AgentRole \<Rightarrow> jstring) \<Rightarrow> AgentSystem \<Rightarrow> stamp \<Rightarrow> js_exn + response \<Rightarrow> js_exn + response
     \<Rightarrow> AgentSystem \<times> event list \<times> task" where
  "runCriticAndHost PROMPTS this s netC netH =
     (let (this1, ev1, tk1) = runCriticAndHost_start PROMPTS this;
          (this2, ev2, tk2) = resume PROMPTS tk1 this1 s netC;
          (this3, ev3, tk3) = resume PROMPTS tk2 this2 s netH
      in (this3, ev1 @ ev2 @ ev3, tk3))"

text \<open>
  \<^verbatim>\<open>runSpecialist\<close> calls \<^verbatim>\<open>this.runCriticAndHost()\<close> without \<^verbatim>\<open>await\<close>: the first part
  of that run happens inside the call, the rest is left running when \<^verbatim>\<open>runSpecialist\<close>
  returns.
\<close>

definition runSpecialist ::
  "(AgentRole \<Rightarrow> jstring) \<Rightarrow> AgentSystem \<Rightarrow> jstring \<Rightarrow> stamp \<Rightarrow> js_exn + response \<Rightarrow> turn"
  where
  "runSpecialist PROMPTS this userInput s net =
     (let ctx = buildContext this 5;
          prompt = runSpecialist_prompt (userProfile (state this)) userInput ctx;
          (sent, result) =
            callGemini (apiKey this) (model this) prompt (Some (PROMPTS SPECIALIST)) net
      in case result of
           Inl e \<Rightarrow> \<lparr>outcome = Inl e, system = this, trace = map Fetch sent, detached = None\<rparr>
         | Inr resp \<Rightarrow>
             if includes_str resp DEMAND_LOCKED then
               (let markerIndex = indexOf resp DEMAND_LOCKED;
                    reply = trim (substring resp 0 markerIndex);
                    demandData =
                      trim (substring_from resp (markerIndex + int (length DEMAND_LOCKED)));
                    this1 = this\<lparr>state := (state this)\<lparr>currentDemand := demandData\<rparr>\<rparr>;
                    (this2, ev) = addAgentMessage this1 (asc ''Genre Specialist'') reply s;
                    this3 = transitionTo this2 CRITIC;
                    (this4, ev', tk) = runCriticAndHost_start PROMPTS this3
                in \<lparr>outcome = Inr (), system = this4, trace = map Fetch sent @ ev @ ev',
                    detached = Some tk\<rparr>)
             else
               (let (this1, ev) = addAgentMessage this (asc ''Genre Specialist'') resp s
                in \<lparr>outcome = Inr (), system = this1, trace = map Fetch sent @ ev,
                    detached = None\<rparr>))"

definition runHost ::
  "(AgentRole \<Rightarrow> jstring) \<Rightarrow> AgentSystem \<Rightarrow> jstring \<Rightarrow> stamp \<Rightarrow> js_exn + response \<Rightarrow> turn"
  where
  "runHost PROMPTS this userInput s net =
     (let ctx = buildContext this 5;
          prompt = runHost_prompt userInput ctx (recommendations (state this));
          (sent, result) =
            callGemini (apiKey this) (model this) prompt (Some (PROMPTS HOST)) net
      in case result of
           Inl e \<Rightarrow> \<lparr>outcome = Inl e, system = this, trace = map Fetch sent, detached = None\<rparr>
         | Inr resp \<Rightarrow>
             (let (this1, ev) = addAgentMessage this (asc ''Host'') resp s
              in \<lparr>outcome = Inr (), system = this1, trace = map Fetch sent @ ev,
                  detached = None\<rparr>))"

subsection \<open>One turn\<close>

definition error_prefix :: jstring where
  "error_prefix = [38169, 35823] @ asc '': ''"

definition error_suffix :: jstring where
  "error_suffix =
     [12290, 35831, 26816, 26597, 24744, 30340] @ asc '' API Key ''
     @ [21644, 32593, 32476, 36830, 25509, 12290]"

text \<open>
  \<^verbatim>\<open>processUserMessage\<close>, from its call until its promise settles, with \<open>net\<close> the answer
  of the network to the request of the stage and no other run of the object in between
  (the caller sends one turn at a time).  The stage functions are awaited inside the
  \<^verbatim>\<open>try\<close>; the \<^verbatim>\<open>catch\<close> adds the error message and throws again.
\<close>

definition processUserMessage ::
  "(AgentRole \<Rightarrow> jstring) \<Rightarrow> AgentSystem \<Rightarrow> jstring \<Rightarrow> stamp \<Rightarrow> js_exn + response \<Rightarrow> turn"
  where
  "processUserMessage PROMPTS this userText s net =
     (if isBackwardRequest userText then
        (let (went, this1, ev) = goBack this s
         in \<lparr>outcome = Inr (), system = this1, trace = ev, detached = None\<rparr>)
      else
        (let named = [AgentChange (getAgentName (currentRole (state this)))];
             r = (case currentRole (state this) of
                    PROFILER \<Rightarrow> runProfiler PROMPTS this userText s net
                  | SPECIALIST \<Rightarrow> runSpecialist PROMPTS this userText s net
                  | CRITIC \<Rightarrow> \<lparr>outcome = Inr (), system = this, trace = [], detached = None\<rparr>
                  | HOST \<Rightarrow> runHost PROMPTS this userText s net)
         in case outcome r of
              Inr u \<Rightarrow> r\<lparr>trace := named @ trace r\<rparr>
            | Inl err \<Rightarrow>
                (let errorMsg = (case err of Error m \<Rightarrow> m | NonError \<Rightarrow> asc ''Unknown error'');
                     (this1, ev) =
                       addSystemMessage (system r) (error_prefix @ errorMsg @ error_suffix) s
                 in \<lparr>outcome = Inl err, system = this1, trace = named @ trace r @ ev,
                     detached = detached r\<rparr>)))"

subsection \<open>Observations\<close>

text \<open>The requests sent during a run, in order: the generation-client calls that reached the network.\<close>

fun fetched :: "event list \<Rightarrow> request list" where
  "fetched [] = []"
| "fetched (Fetch r # evs) = r # fetched evs"
| "fetched (e # evs) = fetched evs"

text \<open>The messages handed to \<^verbatim>\<open>onMessageUpdate\<close> during a run, in order.\<close>

fun emitted :: "event list \<Rightarrow> Message list" where
  "emitted [] = []"
| "emitted (MessageUpdate ms # evs) = ms @ emitted evs"
| "emitted (e # evs) = emitted evs"

text \<open>The stage stack is not empty and the current stage is its top.\<close>

definition stack_invariant :: "AgentSystem \<Rightarrow> bool" where
  "stack_invariant this =
     (stateHistory (state this) \<noteq> []
      \<and> currentRole (state this) = last (stateHistory (state this)))"

text \<open>The credential test of \<^verbatim>\<open>callGemini\<close>: \<^verbatim>\<open>!apiKey || apiKey.trim() === ''\<close>.\<close>

definition blank :: "jstring \<Rightarrow> bool" where
  "blank k = (k = [] \<or> trim k = [])"

section \<open>Sample runs\<close>

text \<open>
  Concrete inputs for the examples below: a prompt library, the readings of clock and
  random generator, two answers of the network, and the objects reached along the
  conversation profiler, specialist, critic, host.
\<close>

definition sample_PROMPTS :: "AgentRole \<Rightarrow> jstring" where
  "sample_PROMPTS r = asc ''You are the '' @ getAgentName r"

definition stamp0 :: stamp where
  "stamp0 = \<lparr>stamp_now = 1, stamp_random = asc ''r'', stamp_time = 2\<rparr>"

text \<open>A success response whose first candidate carries the text \<open>t\<close>.\<close>

definition success_with :: "jstring \<Rightarrow> js_exn + response" where
  "success_with t =
     Inr \<lparr>ok = True, status = 200, statusText = asc ''OK'', response_text = Inr [],
          response_json = Inr (Data (Some [Text t]))\<rparr>"

text \<open>A response with the non-success status \<open>n\<close> and the body \<open>body\<close>.\<close>

definition failure_with :: "nat \<Rightarrow> jstring \<Rightarrow> js_exn + response" where
  "failure_with n body =
     Inr \<lparr>ok = False, status = n, statusText = asc ''Error'', response_text = Inr body,
          response_json = Inl (Error (asc ''Unexpected token''))\<rparr>"

definition at_profiler :: AgentSystem where
  "at_profiler = new_AgentSystem (asc ''k'') (asc ''m'')"

text \<open>The profiler's turn: the answer carries the profile marker.\<close>

definition profiled :: turn where
  "profiled =
     processUserMessage sample_PROMPTS at_profiler (asc ''Alien'') stamp0
       (success_with (asc ''ok '' @ PROFILE_READY @ asc '' sci-fi ''))"

definition at_specialist :: AgentSystem where
  "at_specialist = system profiled"

text \<open>The specialist's turn: the answer carries the demand marker.\<close>

definition locked :: turn where
  "locked =
     processUserMessage sample_PROMPTS at_specialist (asc ''tense'') stamp0
       (success_with (asc ''sure '' @ DEMAND_LOCKED @ asc '' thriller ''))"

definition at_critic :: AgentSystem where
  "at_critic = system locked"

text \<open>The unawaited run goes on: the critic answers, then the host answers.\<close>

definition at_host :: AgentSystem where
  "at_host =
     fst (resume sample_PROMPTS AwaitHost
            (fst (resume sample_PROMPTS AwaitCritic at_critic stamp0 (success_with (asc ''Heat''))))
            stamp0 (success_with (asc ''Watch Heat'')))"

section \<open>Properties\<close>

subsection \<open>Strings\<close>

declare toString.simps [simp del]

lemma startsWith_take: "startsWith s p \<longleftrightarrow> take (length p) s = p"
  by (induction s p rule: startsWith.induct) auto

lemma startsWith_append: "startsWith (p @ s) p"
  by (simp add: startsWith_take)

lemma indexOf_from_shift: "indexOf_from s p (Suc i) = map_option Suc (indexOf_from s p i)"
  by (induction s arbitrary: i) auto

lemma indexOf_from_None_shift: "indexOf_from s p i = None \<longleftrightarrow> indexOf_from s p 0 = None"
  by (induction i) (auto simp: indexOf_from_shift)

lemma includes_str_append: "includes_str (a @ x @ b) x"
proof -
  have "indexOf_from (a @ x @ b) x i \<noteq> None" for i
  proof (induction a arbitrary: i)
    case Nil
    have "startsWith (x @ b) x" by (rule startsWith_append)
    then show ?case by (cases "x @ b") auto
  next
    case (Cons c a)
    then show ?case by simp
  qed
  then show ?thesis by (simp add: includes_str_def)
qed

text \<open>An occurrence that starts before the end of \<open>a\<close> lies within \<open>a @ butlast m\<close>.\<close>

lemma startsWith_butlast:
  assumes "a \<noteq> []" and "startsWith (a @ m @ post) m"
  shows "startsWith (a @ butlast m) m"
proof (cases "m = []")
  case True
  then show ?thesis by simp
next
  case False
  then have m: "m = butlast m @ [last m]" by simp
  have len: "length m \<le> length (a @ butlast m)"
    using assms(1) by (cases a) auto
  have "a @ m @ post = (a @ butlast m) @ ([last m] @ post)"
    using m by (metis append.assoc)
  then have "take (length m) (a @ m @ post)
               = take (length m) ((a @ butlast m) @ ([last m] @ post))"
    by (rule arg_cong)
  also have "\<dots> = take (length m) (a @ butlast m)"
    using len by (simp only: take_append) simp
  finally have "take (length m) (a @ m @ post) = take (length m) (a @ butlast m)" .
  with assms(2) show ?thesis by (simp add: startsWith_take)
qed

text \<open>
  When the marker \<open>m\<close> does not occur before the end of \<open>pre\<close>, the scan of
  \<open>pre @ m @ post\<close> stops right after \<open>pre\<close>.
\<close>

lemma indexOf_from_first:
  assumes "m \<noteq> []" and "\<not> includes_str (pre @ butlast m) m"
  shows "indexOf_from (pre @ m @ post) m i = Some (i + length pre)"
  using assms(2)
proof (induction pre arbitrary: i)
  case Nil
  with assms(1) show ?case by (cases m) (auto simp: startsWith_take)
next
  case (Cons c pre)
  from Cons.prems have no: "\<not> startsWith ((c # pre) @ butlast m) m"
    and rest: "indexOf_from (pre @ butlast m) m (Suc 0) = None"
    by (auto simp: includes_str_def split: if_splits)
  from rest have "\<not> includes_str (pre @ butlast m) m"
    using indexOf_from_None_shift[of "pre @ butlast m" m "Suc 0"]
    by (simp add: includes_str_def)
  then have ih: "indexOf_from (pre @ m @ post) m (Suc i) = Some (Suc i + length pre)"
    by (rule Cons.IH)
  have "\<not> startsWith ((c # pre) @ m @ post) m"
    using no startsWith_butlast[of "c # pre" m post] by blast
  with ih show ?case by simp
qed

lemma startsWith_length: "startsWith s p \<Longrightarrow> length p \<le> length s"
  by (induction s p rule: startsWith.induct) auto

lemma indexOf_from_length:
  "indexOf_from s p i = Some j \<Longrightarrow> length p \<le> length s"
proof (induction s arbitrary: i)
  case Nil
  then show ?case by (simp split: if_splits)
next
  case (Cons c s)
  then show ?case
    using startsWith_length[of "c # s" p] by (fastforce split: if_splits)
qed

lemma startsWith_butlast_conv:
  assumes "a \<noteq> []" and "startsWith (a @ butlast m) m"
  shows "startsWith (a @ m @ post) m"
proof (cases "m = []")
  case True
  then show ?thesis by simp
next
  case False
  then have m: "m = butlast m @ [last m]" by simp
  have len: "length m \<le> length (a @ butlast m)"
    using assms(1) by (cases a) auto
  have "a @ m @ post = (a @ butlast m) @ ([last m] @ post)"
    using m by (metis append.assoc)
  then have "take (length m) (a @ m @ post)
               = take (length m) ((a @ butlast m) @ ([last m] @ post))"
    by (rule arg_cong)
  also have "\<dots> = take (length m) (a @ butlast m)"
    using len by (simp only: take_append) simp
  finally have "take (length m) (a @ m @ post) = take (length m) (a @ butlast m)" .
  with assms(2) show ?thesis by (simp add: startsWith_take)
qed

text \<open>A string that contains \<open>m\<close> splits at the first occurrence of \<open>m\<close>.\<close>

lemma indexOf_from_split:
  assumes "m \<noteq> []"
  shows "indexOf_from s m i = Some j \<Longrightarrow>
         \<exists>pre post. s = pre @ m @ post \<and> \<not> includes_str (pre @ butlast m) m"
proof (induction s arbitrary: i)
  case Nil
  with assms show ?case by simp
next
  case (Cons c s)
  show ?case
  proof (cases "startsWith (c # s) m")
    case True
    then have "c # s = m @ drop (length m) (c # s)"
      by (metis append_take_drop_id startsWith_take)
    moreover have "\<not> includes_str (butlast m) m"
    proof
      assume "includes_str (butlast m) m"
      then obtain j' where "indexOf_from (butlast m) m 0 = Some j'"
        by (auto simp add: includes_str_def)
      from indexOf_from_length[OF this] assms show False
        by (cases m rule: rev_cases) auto
    qed
    ultimately have "c # s = [] @ m @ drop (length m) (c # s)
                     \<and> \<not> includes_str ([] @ butlast m) m"
      by simp
    then show ?thesis by blast
  next
    case False
    with Cons.prems have "indexOf_from s m (Suc i) = Some j" by simp
    from Cons.IH[OF this] obtain pre post
      where s: "s = pre @ m @ post" and first: "\<not> includes_str (pre @ butlast m) m"
      by blast
    have "\<not> startsWith ((c # pre) @ butlast m) m"
      using False startsWith_butlast_conv[of "c # pre" m post] s by auto
    moreover have "indexOf_from (pre @ butlast m) m (Suc 0) = None"
      using first indexOf_from_None_shift[of "pre @ butlast m" m "Suc 0"]
      by (simp add: includes_str_def)
    ultimately have "\<not> includes_str ((c # pre) @ butlast m) m"
      by (simp add: includes_str_def)
    with s have "c # s = (c # pre) @ m @ post \<and> \<not> includes_str ((c # pre) @ butlast m) m"
      by simp
    then show ?thesis by blast
  qed
qed

lemma includes_str_split:
  assumes "m \<noteq> []" and "includes_str s m"
  shows "\<exists>pre post. s = pre @ m @ post \<and> \<not> includes_str (pre @ butlast m) m"
  using assms(2) indexOf_from_split[OF assms(1), of s 0]
  by (auto simp add: includes_str_def)

lemma substring_prefix: "substring (pre @ rest) 0 (int (length pre)) = pre"
  by (simp add: substring_def clamp_index_def Let_def)

lemma substring_from_suffix:
  "substring_from (pre @ m @ post) (int (length pre) + int (length m)) = post"
proof -
  have "nat (int (length pre) + int (length m)) = length pre + length m" by simp
  then show ?thesis by (simp add: substring_from_def clamp_index_def)
qed

lemma marker_split:
  assumes "m \<noteq> []" and "\<not> includes_str (pre @ butlast m) m"
  shows "includes_str (pre @ m @ post) m"
    and "trim (substring (pre @ m @ post) 0 (indexOf (pre @ m @ post) m)) = trim pre"
    and "trim (substring_from (pre @ m @ post) (indexOf (pre @ m @ post) m + int (length m)))
           = trim post"
proof -
  have ix: "indexOf (pre @ m @ post) m = int (length pre)"
    using indexOf_from_first[OF assms, of post 0] by (simp add: indexOf_def)
  show "includes_str (pre @ m @ post) m" by (rule includes_str_append)
  show "trim (substring (pre @ m @ post) 0 (indexOf (pre @ m @ post) m)) = trim pre"
    by (simp only: ix substring_prefix)
  show "trim (substring_from (pre @ m @ post) (indexOf (pre @ m @ post) m + int (length m)))
           = trim post"
    by (simp only: ix substring_from_suffix)
qed

lemma PROFILE_READY_nonempty: "PROFILE_READY \<noteq> []"
  by (simp add: PROFILE_READY_def asc_def)

lemma DEMAND_LOCKED_nonempty: "DEMAND_LOCKED \<noteq> []"
  by (simp add: DEMAND_LOCKED_def asc_def)

lemma includes_str_mid: "includes_str (a @ x @ b) x" "includes_str (a @ x) x"
  using includes_str_append[of a x b] includes_str_append[of a x "[]"] by simp_all

lemma emitted_append: "emitted (xs @ ys) = emitted xs @ emitted ys"
  by (induction xs rule: emitted.induct) auto

lemma fetched_append: "fetched (xs @ ys) = fetched xs @ fetched ys"
  by (induction xs rule: fetched.induct) auto

subsection \<open>The generation client\<close>

lemma callGemini_request_nonblank:
  "\<not> blank k \<Longrightarrow> \<exists>req. callGemini_request k m p si = Inr req \<and> req_contents req = p"
  by (simp add: callGemini_request_def blank_def)

lemma callGemini_nonblank:
  "\<not> blank k \<Longrightarrow>
     \<exists>req. callGemini k m p si net = ([req], callGemini_response net) \<and> req_contents req = p"
  by (simp add: callGemini_def callGemini_request_def blank_def)

lemma callGemini_blank:
  "blank k \<Longrightarrow>
     callGemini k m p si net = ([], Inl (Error (asc ''API key is empty or missing'')))"
  by (simp add: callGemini_def callGemini_request_def blank_def)

lemma callGemini_response_success: "callGemini_response (success_with t) = Inr t"
  by (simp add: callGemini_response_def callGemini_try_def callGemini_catch_def success_with_def)

lemma callGemini_response_failure:
  "callGemini_response (failure_with n body) =
     Inl (Error (asc ''API Error '' @ toString n @ asc '': '' @ asc ''Error'' @ asc ''. '' @ body))"
  by (simp add: callGemini_response_def callGemini_try_def callGemini_catch_def failure_with_def)

lemma callGemini_snd_indep:
  "snd (callGemini k m p si net) = snd (callGemini k m p' si' net)"
  by (simp add: callGemini_def callGemini_request_def)

lemma callGemini_catch_Error: "callGemini_catch r = Inl e \<Longrightarrow> \<exists>msg. e = Error msg"
  by (auto simp add: callGemini_catch_def split: sum.splits js_exn.splits)

lemma callGemini_fails_with_Error:
  "snd (callGemini k m p si net) = Inl e \<Longrightarrow> \<exists>msg. e = Error msg"
  by (auto simp add: callGemini_def callGemini_request_def callGemini_response_def
      dest: callGemini_catch_Error split: if_splits)

subsection \<open>The stages\<close>

lemma addAgentMessage_eq:
  "addAgentMessage this nm txt s =
     (this\<lparr>state := (state this)\<lparr>history := history (state this) @ [agent_message nm txt s]\<rparr>\<rparr>,
      [MessageUpdate [agent_message nm txt s]])"
  by (simp add: addAgentMessage_def Let_def)

lemma runProfiler_marker:
  assumes "\<not> blank (apiKey this)"
    and "callGemini_response net = Inr (pre @ PROFILE_READY @ post)"
    and "\<not> includes_str (pre @ butlast PROFILE_READY) PROFILE_READY"
  shows "\<exists>req. runProfiler PROMPTS this userInput s net =
           \<lparr>outcome = Inr (),
            system = this\<lparr>state := (state this)
                     \<lparr>userProfile := trim post,
                      history := history (state this) @ [agent_message (asc ''Profiler'') (trim pre) s],
                      stateHistory := stateHistory (state this) @ [SPECIALIST],
                      currentRole := SPECIALIST\<rparr>\<rparr>,
            trace = [Fetch req, MessageUpdate [agent_message (asc ''Profiler'') (trim pre) s]],
            detached = None\<rparr>
          \<and> req_contents req = runProfiler_prompt userInput (buildContext this 5)"
proof -
  note sp = marker_split[OF PROFILE_READY_nonempty assms(3), of post]
  obtain req where "callGemini (apiKey this) (model this)
      (runProfiler_prompt userInput (buildContext this 5)) (Some (PROMPTS PROFILER)) net
      = ([req], callGemini_response net)"
    and "req_contents req = runProfiler_prompt userInput (buildContext this 5)"
    using callGemini_nonblank[OF assms(1)] by blast
  then show ?thesis
    by (simp add: runProfiler_def Let_def assms(2) sp addAgentMessage_eq transitionTo_def)
qed

lemma runCriticAndHost_start_nonblank:
  assumes "\<not> blank (apiKey this)"
  shows "\<exists>req. runCriticAndHost_start PROMPTS this =
                 (this, [AgentChange (asc ''Critic Agent''), Fetch req], AwaitCritic)
             \<and> req_contents req
                 = criticPrompt (userProfile (state this)) (currentDemand (state this))"
proof -
  obtain req where "callGemini_request (apiKey this) (model this)
      (criticPrompt (userProfile (state this)) (currentDemand (state this)))
      (Some (PROMPTS CRITIC)) = Inr req"
    and "req_contents req = criticPrompt (userProfile (state this)) (currentDemand (state this))"
    using callGemini_request_nonblank[OF assms] by blast
  then show ?thesis by (simp add: runCriticAndHost_start_def Let_def)
qed

lemma runSpecialist_marker:
  assumes "\<not> blank (apiKey this)"
    and "callGemini_response net = Inr (pre @ DEMAND_LOCKED @ post)"
    and "\<not> includes_str (pre @ butlast DEMAND_LOCKED) DEMAND_LOCKED"
  shows "\<exists>req creq. runSpecialist PROMPTS this userInput s net =
           \<lparr>outcome = Inr (),
            system = this\<lparr>state := (state this)
                     \<lparr>currentDemand := trim post,
                      history := history (state this)
                                 @ [agent_message (asc ''Genre Specialist'') (trim pre) s],
                      stateHistory := stateHistory (state this) @ [CRITIC],
                      currentRole := CRITIC\<rparr>\<rparr>,
            trace = [Fetch req, MessageUpdate [agent_message (asc ''Genre Specialist'') (trim pre) s],
                     AgentChange (asc ''Critic Agent''), Fetch creq],
            detached = Some AwaitCritic\<rparr>
          \<and> req_contents req
              = runSpecialist_prompt (userProfile (state this)) userInput (buildContext this 5)
          \<and> req_contents creq = criticPrompt (userProfile (state this)) (trim post)"
proof -
  note sp = marker_split[OF DEMAND_LOCKED_nonempty assms(3), of post]
  let ?this3 = "this\<lparr>state := (state this)
                     \<lparr>currentDemand := trim post,
                      history := history (state this)
                                 @ [agent_message (asc ''Genre Specialist'') (trim pre) s],
                      stateHistory := stateHistory (state this) @ [CRITIC],
                      currentRole := CRITIC\<rparr>\<rparr>"
  obtain req where req: "callGemini (apiKey this) (model this)
      (runSpecialist_prompt (userProfile (state this)) userInput (buildContext this 5))
      (Some (PROMPTS SPECIALIST)) net
      = ([req], callGemini_response net)"
    "req_contents req
       = runSpecialist_prompt (userProfile (state this)) userInput (buildContext this 5)"
    using callGemini_nonblank[OF assms(1)] by blast
  have "\<not> blank (apiKey ?this3)" using assms(1) by simp
  from runCriticAndHost_start_nonblank[OF this, of PROMPTS]
  obtain creq where creq: "runCriticAndHost_start PROMPTS ?this3 =
                 (?this3, [AgentChange (asc ''Critic Agent''), Fetch creq], AwaitCritic)"
    "req_contents creq = criticPrompt (userProfile (state this)) (trim post)"
    by auto
  show ?thesis
    using req creq
    by (simp add: runSpecialist_def Let_def assms(2) sp addAgentMessage_eq transitionTo_def)
qed

lemma run_no_marker:
  assumes "\<not> blank (apiKey this)" and "callGemini_response net = Inr resp"
  shows "\<not> includes_str resp PROFILE_READY \<Longrightarrow>
         \<exists>req. runProfiler PROMPTS this userInput s net =
           \<lparr>outcome = Inr (),
            system = this\<lparr>state := (state this)
               \<lparr>history := history (state this) @ [agent_message (asc ''Profiler'') resp s]\<rparr>\<rparr>,
            trace = [Fetch req, MessageUpdate [agent_message (asc ''Profiler'') resp s]],
            detached = None\<rparr>
          \<and> req_contents req = runProfiler_prompt userInput (buildContext this 5)"
    and "\<not> includes_str resp DEMAND_LOCKED \<Longrightarrow>
         \<exists>req. runSpecialist PROMPTS this userInput s net =
           \<lparr>outcome = Inr (),
            system = this\<lparr>state := (state this)
               \<lparr>history := history (state this)
                            @ [agent_message (asc ''Genre Specialist'') resp s]\<rparr>\<rparr>,
            trace = [Fetch req, MessageUpdate [agent_message (asc ''Genre Specialist'') resp s]],
            detached = None\<rparr>
          \<and> req_contents req
              = runSpecialist_prompt (userProfile (state this)) userInput (buildContext this 5)"
    and "\<exists>req. runHost PROMPTS this userInput s net =
           \<lparr>outcome = Inr (),
            system = this\<lparr>state := (state this)
               \<lparr>history := history (state this) @ [agent_message (asc ''Host'') resp s]\<rparr>\<rparr>,
            trace = [Fetch req, MessageUpdate [agent_message (asc ''Host'') resp s]],
            detached = None\<rparr>
          \<and> req_contents req
              = runHost_prompt userInput (buildContext this 5) (recommendations (state this))"
proof -
  show "\<exists>req. runProfiler PROMPTS this userInput s net =
           \<lparr>outcome = Inr (),
            system = this\<lparr>state := (state this)
               \<lparr>history := history (state this) @ [agent_message (asc ''Profiler'') resp s]\<rparr>\<rparr>,
            trace = [Fetch req, MessageUpdate [agent_message (asc ''Profiler'') resp s]],
            detached = None\<rparr>
          \<and> req_contents req = runProfiler_prompt userInput (buildContext this 5)"
    if "\<not> includes_str resp PROFILE_READY"
    using that callGemini_nonblank[OF assms(1), of "model this"
        "runProfiler_prompt userInput (buildContext this 5)" "Some (PROMPTS PROFILER)" net]
    by (auto simp add: runProfiler_def Let_def assms(2) addAgentMessage_eq)
  show "\<exists>req. runSpecialist PROMPTS this userInput s net =
           \<lparr>outcome = Inr (),
            system = this\<lparr>state := (state this)
               \<lparr>history := history (state this)
                            @ [agent_message (asc ''Genre Specialist'') resp s]\<rparr>\<rparr>,
            trace = [Fetch req, MessageUpdate [agent_message (asc ''Genre Specialist'') resp s]],
            detached = None\<rparr>
          \<and> req_contents req
              = runSpecialist_prompt (userProfile (state this)) userInput (buildContext this 5)"
    if "\<not> includes_str resp DEMAND_LOCKED"
    using that callGemini_nonblank[OF assms(1), of "model this"
        "runSpecialist_prompt (userProfile (state this)) userInput (buildContext this 5)"
        "Some (PROMPTS SPECIALIST)" net]
    by (auto simp add: runSpecialist_def Let_def assms(2) addAgentMessage_eq)
  show "\<exists>req. runHost PROMPTS this userInput s net =
           \<lparr>outcome = Inr (),
            system = this\<lparr>state := (state this)
               \<lparr>history := history (state this) @ [agent_message (asc ''Host'') resp s]\<rparr>\<rparr>,
            trace = [Fetch req, MessageUpdate [agent_message (asc ''Host'') resp s]],
            detached = None\<rparr>
          \<and> req_contents req
              = runHost_prompt userInput (buildContext this 5) (recommendations (state this))"
    using callGemini_nonblank[OF assms(1), of "model this"
        "runHost_prompt userInput (buildContext this 5) (recommendations (state this))"
        "Some (PROMPTS HOST)" net]
    by (auto simp add: runHost_def Let_def assms(2) addAgentMessage_eq)
qed

lemma run_failed:
  assumes "snd (callGemini (apiKey this) (model this) p si net) = Inl e"
  shows "outcome (runProfiler PROMPTS this userInput s net) = Inl e
         \<and> system (runProfiler PROMPTS this userInput s net) = this
         \<and> emitted (trace (runProfiler PROMPTS this userInput s net)) = []
         \<and> detached (runProfiler PROMPTS this userInput s net) = None"
    and "outcome (runSpecialist PROMPTS this userInput s net) = Inl e
         \<and> system (runSpecialist PROMPTS this userInput s net) = this
         \<and> emitted (trace (runSpecialist PROMPTS this userInput s net)) = []
         \<and> detached (runSpecialist PROMPTS this userInput s net) = None"
    and "outcome (runHost PROMPTS this userInput s net) = Inl e
         \<and> system (runHost PROMPTS this userInput s net) = this
         \<and> emitted (trace (runHost PROMPTS this userInput s net)) = []
         \<and> detached (runHost PROMPTS this userInput s net) = None"
proof -
  have e: "\<exists>sent. callGemini (apiKey this) (model this) p' si' net = (sent, Inl e)" for p' si'
    using assms callGemini_snd_indep[of "apiKey this" "model this" p' si' net p si]
    by (cases "callGemini (apiKey this) (model this) p' si' net") simp
  have nomsg: "emitted (map Fetch sent) = []" for sent
    by (induction sent) auto
  show "outcome (runProfiler PROMPTS this userInput s net) = Inl e
         \<and> system (runProfiler PROMPTS this userInput s net) = this
         \<and> emitted (trace (runProfiler PROMPTS this userInput s net)) = []
         \<and> detached (runProfiler PROMPTS this userInput s net) = None"
    using e[of "runProfiler_prompt userInput (buildContext this 5)" "Some (PROMPTS PROFILER)"]
    by (auto simp add: runProfiler_def Let_def nomsg)
  show "outcome (runSpecialist PROMPTS this userInput s net) = Inl e
         \<and> system (runSpecialist PROMPTS this userInput s net) = this
         \<and> emitted (trace (runSpecialist PROMPTS this userInput s net)) = []
         \<and> detached (runSpecialist PROMPTS this userInput s net) = None"
    using e[of "runSpecialist_prompt (userProfile (state this)) userInput (buildContext this 5)"
        "Some (PROMPTS SPECIALIST)"]
    by (auto simp add: runSpecialist_def Let_def nomsg)
  show "outcome (runHost PROMPTS this userInput s net) = Inl e
         \<and> system (runHost PROMPTS this userInput s net) = this
         \<and> emitted (trace (runHost PROMPTS this userInput s net)) = []
         \<and> detached (runHost PROMPTS this userInput s net) = None"
    using e[of "runHost_prompt userInput (buildContext this 5) (recommendations (state this))"
        "Some (PROMPTS HOST)"]
    by (auto simp add: runHost_def Let_def nomsg)
qed

lemma resume_critic_ok:
  assumes "\<not> blank (apiKey this)" and "callGemini_response netC = Inr respC"
  shows "\<exists>req. resume PROMPTS AwaitCritic this s netC =
            (this\<lparr>state := (state this)\<lparr>recommendations := respC,
                     stateHistory := stateHistory (state this) @ [HOST],
                     currentRole := HOST\<rparr>\<rparr>,
             [AgentChange (asc ''Host Agent''), Fetch req], AwaitHost)
          \<and> req_contents req
               = hostPrompt respC (userProfile (state this)) (currentDemand (state this))"
proof -
  let ?this2 = "this\<lparr>state := (state this)\<lparr>recommendations := respC,
                     stateHistory := stateHistory (state this) @ [HOST],
                     currentRole := HOST\<rparr>\<rparr>"
  obtain req where "callGemini_request (apiKey this) (model this)
      (hostPrompt respC (userProfile (state this)) (currentDemand (state this)))
      (Some (PROMPTS HOST)) = Inr req"
    and "req_contents req = hostPrompt respC (userProfile (state this)) (currentDemand (state this))"
    using callGemini_request_nonblank[OF assms(1)] by blast
  then show ?thesis
    by (simp add: resume_def runCriticAndHost_critic_def assms(2) Let_def transitionTo_def)
qed

lemma resume_critic_failed:
  "callGemini_response netC = Inl e \<Longrightarrow>
     resume PROMPTS AwaitCritic this s netC = (this, [], Settled (Inl e))"
  by (simp add: resume_def runCriticAndHost_critic_def)

lemma resume_host_ok:
  "callGemini_response netH = Inr respH \<Longrightarrow>
     resume PROMPTS AwaitHost this s netH =
       (this\<lparr>state := (state this)
              \<lparr>history := history (state this) @ [agent_message (asc ''Host'') respH s]\<rparr>\<rparr>,
        [MessageUpdate [agent_message (asc ''Host'') respH s]], Settled (Inr ()))"
  by (simp add: resume_def runCriticAndHost_host_def addAgentMessage_eq)

lemma runCriticAndHost_succeeds:
  assumes "\<not> blank (apiKey this)"
    and "callGemini_response netC = Inr respC"
    and "callGemini_response netH = Inr respH"
  shows "\<exists>creq hreq. runCriticAndHost PROMPTS this s netC netH =
           (this\<lparr>state := (state this)
                  \<lparr>recommendations := respC,
                   stateHistory := stateHistory (state this) @ [HOST],
                   currentRole := HOST,
                   history := history (state this) @ [agent_message (asc ''Host'') respH s]\<rparr>\<rparr>,
            [AgentChange (asc ''Critic Agent''), Fetch creq,
             AgentChange (asc ''Host Agent''), Fetch hreq,
             MessageUpdate [agent_message (asc ''Host'') respH s]],
            Settled (Inr ()))
         \<and> req_contents creq
             = criticPrompt (userProfile (state this)) (currentDemand (state this))
         \<and> req_contents hreq
             = hostPrompt respC (userProfile (state this)) (currentDemand (state this))"
proof -
  from runCriticAndHost_start_nonblank[OF assms(1), of PROMPTS]
  obtain creq where c: "runCriticAndHost_start PROMPTS this =
                 (this, [AgentChange (asc ''Critic Agent''), Fetch creq], AwaitCritic)"
    "req_contents creq = criticPrompt (userProfile (state this)) (currentDemand (state this))"
    by blast
  from resume_critic_ok[OF assms(1,2), of PROMPTS s]
  obtain hreq where h: "resume PROMPTS AwaitCritic this s netC =
            (this\<lparr>state := (state this)\<lparr>recommendations := respC,
                     stateHistory := stateHistory (state this) @ [HOST],
                     currentRole := HOST\<rparr>\<rparr>,
             [AgentChange (asc ''Host Agent''), Fetch hreq], AwaitHost)"
    "req_contents hreq = hostPrompt respC (userProfile (state this)) (currentDemand (state this))"
    by blast
  show ?thesis
    using c h by (simp add: runCriticAndHost_def resume_host_ok[OF assms(3)])
qed

lemma buildContext_window:
  "buildContext this 5 =
     join (asc ''\<newline>'')
       (map (\<lambda>m. role_string (role m) @ asc '': '' @ content m)
          (drop (length (history (state this)) - 5) (history (state this))))"
  by (simp add: buildContext_def slice_last_def)

lemma prompt_embeds:
  "includes_str (runProfiler_prompt u c) u" "includes_str (runProfiler_prompt u c) c"
  "includes_str (runSpecialist_prompt p u c) p" "includes_str (runSpecialist_prompt p u c) u"
  "includes_str (runSpecialist_prompt p u c) c"
  "includes_str (runHost_prompt u c r) u" "includes_str (runHost_prompt u c r) c"
  "includes_str (runHost_prompt u c r) r"
  "includes_str (criticPrompt p d) p" "includes_str (criticPrompt p d) d"
  "includes_str (hostPrompt r p d) r" "includes_str (hostPrompt r p d) p"
  "includes_str (hostPrompt r p d) d"
proof -
  have two: "includes_str (a @ x @ b @ y @ c) y" for a x b y c :: jstring
    using includes_str_append[of "a @ x @ b" y c] by simp
  have three: "includes_str (a @ x @ b @ y @ c @ z @ d) z" for a x b y c z d :: jstring
    using includes_str_append[of "a @ x @ b @ y @ c" z d] by simp
  have q: "includes_str (a @ [34] @ x @ b) x" "includes_str (a @ y @ b @ [34] @ x @ c) x"
     "includes_str (a @ [34] @ y @ [34] @ b @ x @ c) x"
     "includes_str (a @ z @ b @ [34] @ y @ [34] @ c @ x @ d) x" for a b c d x y z :: jstring
    using includes_str_append[of "a @ [34]" x b]
      includes_str_append[of "a @ y @ b @ [34]" x c]
      includes_str_append[of "a @ [34] @ y @ [34] @ b" x c]
      includes_str_append[of "a @ z @ b @ [34] @ y @ [34] @ c" x d]
    by simp_all
  show "includes_str (runProfiler_prompt u c) u" "includes_str (runProfiler_prompt u c) c"
    unfolding runProfiler_prompt_def by (rule q)+
  show "includes_str (runSpecialist_prompt p u c) p" "includes_str (runSpecialist_prompt p u c) u"
    "includes_str (runSpecialist_prompt p u c) c"
    unfolding runSpecialist_prompt_def by (rule includes_str_append q)+
  show "includes_str (runHost_prompt u c r) u" "includes_str (runHost_prompt u c r) c"
    "includes_str (runHost_prompt u c r) r"
    unfolding runHost_prompt_def by (rule includes_str_append two three)+
  show "includes_str (criticPrompt p d) p" "includes_str (criticPrompt p d) d"
    unfolding criticPrompt_def by (rule includes_str_append two)+
  show "includes_str (hostPrompt r p d) r" "includes_str (hostPrompt r p d) p"
    "includes_str (hostPrompt r p d) d"
    unfolding hostPrompt_def by (rule includes_str_append two three)+
qed

subsection \<open>Turns\<close>

lemma turn_forward:
  assumes "\<not> isBackwardRequest userText"
  shows "currentRole (state this) = PROFILER \<Longrightarrow>
         runProfiler PROMPTS this userText s net = r \<Longrightarrow> outcome r = Inr () \<Longrightarrow>
         processUserMessage PROMPTS this userText s net
           = r\<lparr>trace := AgentChange (asc ''Profiler'') # trace r\<rparr>"
    and "currentRole (state this) = SPECIALIST \<Longrightarrow>
         runSpecialist PROMPTS this userText s net = r \<Longrightarrow> outcome r = Inr () \<Longrightarrow>
         processUserMessage PROMPTS this userText s net
           = r\<lparr>trace := AgentChange (asc ''Genre Specialist'') # trace r\<rparr>"
    and "currentRole (state this) = HOST \<Longrightarrow>
         runHost PROMPTS this userText s net = r \<Longrightarrow> outcome r = Inr () \<Longrightarrow>
         processUserMessage PROMPTS this userText s net
           = r\<lparr>trace := AgentChange (asc ''Host'') # trace r\<rparr>"
  using assms by (auto simp add: processUserMessage_def Let_def)

lemma turn_profiler_marker:
  assumes "\<not> isBackwardRequest userText"
    and "\<not> blank (apiKey this)"
    and "currentRole (state this) = PROFILER"
    and "callGemini_response net = Inr (pre @ PROFILE_READY @ post)"
    and "\<not> includes_str (pre @ butlast PROFILE_READY) PROFILE_READY"
  shows "\<exists>req. processUserMessage PROMPTS this userText s net =
           \<lparr>outcome = Inr (),
            system = this\<lparr>state := (state this)
                     \<lparr>userProfile := trim post,
                      history := history (state this) @ [agent_message (asc ''Profiler'') (trim pre) s],
                      stateHistory := stateHistory (state this) @ [SPECIALIST],
                      currentRole := SPECIALIST\<rparr>\<rparr>,
            trace = [AgentChange (asc ''Profiler''), Fetch req,
                     MessageUpdate [agent_message (asc ''Profiler'') (trim pre) s]],
            detached = None\<rparr>
          \<and> req_contents req = runProfiler_prompt userText (buildContext this 5)"
proof -
  from runProfiler_marker[OF assms(2,4,5), of PROMPTS userText s]
  obtain req where r: "runProfiler PROMPTS this userText s net =
           \<lparr>outcome = Inr (),
            system = this\<lparr>state := (state this)
                     \<lparr>userProfile := trim post,
                      history := history (state this) @ [agent_message (asc ''Profiler'') (trim pre) s],
                      stateHistory := stateHistory (state this) @ [SPECIALIST],
                      currentRole := SPECIALIST\<rparr>\<rparr>,
            trace = [Fetch req, MessageUpdate [agent_message (asc ''Profiler'') (trim pre) s]],
            detached = None\<rparr>"
    and "req_contents req = runProfiler_prompt userText (buildContext this 5)"
    by blast
  then show ?thesis
    using turn_forward(1)[OF assms(1,3) r] by simp
qed

lemma turn_specialist_marker:
  assumes "\<not> isBackwardRequest userText"
    and "\<not> blank (apiKey this)"
    and "currentRole (state this) = SPECIALIST"
    and "callGemini_response net = Inr (pre @ DEMAND_LOCKED @ post)"
    and "\<not> includes_str (pre @ butlast DEMAND_LOCKED) DEMAND_LOCKED"
  shows "\<exists>req creq. processUserMessage PROMPTS this userText s net =
           \<lparr>outcome = Inr (),
            system = this\<lparr>state := (state this)
                     \<lparr>currentDemand := trim post,
                      history := history (state this)
                                 @ [agent_message (asc ''Genre Specialist'') (trim pre) s],
                      stateHistory := stateHistory (state this) @ [CRITIC],
                      currentRole := CRITIC\<rparr>\<rparr>,
            trace = [AgentChange (asc ''Genre Specialist''), Fetch req,
                     MessageUpdate [agent_message (asc ''Genre Specialist'') (trim pre) s],
                     AgentChange (asc ''Critic Agent''), Fetch creq],
            detached = Some AwaitCritic\<rparr>
          \<and> req_contents req
              = runSpecialist_prompt (userProfile (state this)) userText (buildContext this 5)
          \<and> req_contents creq = criticPrompt (userProfile (state this)) (trim post)"
proof -
  from runSpecialist_marker[OF assms(2,4,5), of PROMPTS userText s]
  obtain req creq where r: "runSpecialist PROMPTS this userText s net =
           \<lparr>outcome = Inr (),
            system = this\<lparr>state := (state this)
                     \<lparr>currentDemand := trim post,
                      history := history (state this)
                                 @ [agent_message (asc ''Genre Specialist'') (trim pre) s],
                      stateHistory := stateHistory (state this) @ [CRITIC],
                      currentRole := CRITIC\<rparr>\<rparr>,
            trace = [Fetch req, MessageUpdate [agent_message (asc ''Genre Specialist'') (trim pre) s],
                     AgentChange (asc ''Critic Agent''), Fetch creq],
            detached = Some AwaitCritic\<rparr>"
    and "req_contents req
              = runSpecialist_prompt (userProfile (state this)) userText (buildContext this 5)"
    and "req_contents creq = criticPrompt (userProfile (state this)) (trim post)"
    by blast
  then show ?thesis
    using turn_forward(2)[OF assms(1,3) r] by simp
qed

lemma turn_profiler_marker_proj:
  assumes "\<not> isBackwardRequest userText"
    and "\<not> blank (apiKey this)"
    and "currentRole (state this) = PROFILER"
    and "callGemini_response net = Inr (pre @ PROFILE_READY @ post)"
    and "\<not> includes_str (pre @ butlast PROFILE_READY) PROFILE_READY"
  shows "outcome (processUserMessage PROMPTS this userText s net) = Inr ()"
    and "system (processUserMessage PROMPTS this userText s net) =
           this\<lparr>state := (state this)
                     \<lparr>userProfile := trim post,
                      history := history (state this) @ [agent_message (asc ''Profiler'') (trim pre) s],
                      stateHistory := stateHistory (state this) @ [SPECIALIST],
                      currentRole := SPECIALIST\<rparr>\<rparr>"
    and "detached (processUserMessage PROMPTS this userText s net) = None"
    and "emitted (trace (processUserMessage PROMPTS this userText s net))
           = [agent_message (asc ''Profiler'') (trim pre) s]"
    and "map req_contents (fetched (trace (processUserMessage PROMPTS this userText s net)))
           = [runProfiler_prompt userText (buildContext this 5)]"
  using turn_profiler_marker[OF assms, of PROMPTS s] by auto

lemma turn_specialist_marker_proj:
  assumes "\<not> isBackwardRequest userText"
    and "\<not> blank (apiKey this)"
    and "currentRole (state this) = SPECIALIST"
    and "callGemini_response net = Inr (pre @ DEMAND_LOCKED @ post)"
    and "\<not> includes_str (pre @ butlast DEMAND_LOCKED) DEMAND_LOCKED"
  shows "outcome (processUserMessage PROMPTS this userText s net) = Inr ()"
    and "system (processUserMessage PROMPTS this userText s net) =
           this\<lparr>state := (state this)
                     \<lparr>currentDemand := trim post,
                      history := history (state this)
                                 @ [agent_message (asc ''Genre Specialist'') (trim pre) s],
                      stateHistory := stateHistory (state this) @ [CRITIC],
                      currentRole := CRITIC\<rparr>\<rparr>"
    and "detached (processUserMessage PROMPTS this userText s net) = Some AwaitCritic"
    and "emitted (trace (processUserMessage PROMPTS this userText s net))
           = [agent_message (asc ''Genre Specialist'') (trim pre) s]"
    and "map req_contents (fetched (trace (processUserMessage PROMPTS this userText s net)))
           = [runSpecialist_prompt (userProfile (state this)) userText (buildContext this 5),
              criticPrompt (userProfile (state this)) (trim post)]"
  using turn_specialist_marker[OF assms, of PROMPTS s] by auto

lemma turn_no_marker:
  assumes "\<not> isBackwardRequest userText"
    and "\<not> blank (apiKey this)"
    and "callGemini_response net = Inr resp"
    and "currentRole (state this) = PROFILER \<and> \<not> includes_str resp PROFILE_READY
         \<or> currentRole (state this) = SPECIALIST \<and> \<not> includes_str resp DEMAND_LOCKED
         \<or> currentRole (state this) = HOST"
  shows "\<exists>req. processUserMessage PROMPTS this userText s net =
           \<lparr>outcome = Inr (),
            system = this\<lparr>state := (state this)
               \<lparr>history := history (state this)
                  @ [agent_message (getAgentName (currentRole (state this))) resp s]\<rparr>\<rparr>,
            trace = [AgentChange (getAgentName (currentRole (state this))), Fetch req,
                     MessageUpdate [agent_message (getAgentName (currentRole (state this))) resp s]],
            detached = None\<rparr>
          \<and> req_contents req =
              (case currentRole (state this) of
                 PROFILER \<Rightarrow> runProfiler_prompt userText (buildContext this 5)
               | SPECIALIST \<Rightarrow>
                   runSpecialist_prompt (userProfile (state this)) userText (buildContext this 5)
               | _ \<Rightarrow> runHost_prompt userText (buildContext this 5) (recommendations (state this)))"
  using assms(4)
proof (elim disjE conjE)
  assume a: "currentRole (state this) = PROFILER" "\<not> includes_str resp PROFILE_READY"
  from run_no_marker(1)[OF assms(2,3) a(2), of PROMPTS userText s]
  obtain req where r: "runProfiler PROMPTS this userText s net =
           \<lparr>outcome = Inr (),
            system = this\<lparr>state := (state this)
               \<lparr>history := history (state this) @ [agent_message (asc ''Profiler'') resp s]\<rparr>\<rparr>,
            trace = [Fetch req, MessageUpdate [agent_message (asc ''Profiler'') resp s]],
            detached = None\<rparr>"
    and "req_contents req = runProfiler_prompt userText (buildContext this 5)"
    by blast
  then show ?thesis
    using turn_forward(1)[OF assms(1) a(1) r] a(1) by simp
next
  assume a: "currentRole (state this) = SPECIALIST" "\<not> includes_str resp DEMAND_LOCKED"
  from run_no_marker(2)[OF assms(2,3) a(2), of PROMPTS userText s]
  obtain req where r: "runSpecialist PROMPTS this userText s net =
           \<lparr>outcome = Inr (),
            system = this\<lparr>state := (state this)
               \<lparr>history := history (state this)
                            @ [agent_message (asc ''Genre Specialist'') resp s]\<rparr>\<rparr>,
            trace = [Fetch req, MessageUpdate [agent_message (asc ''Genre Specialist'') resp s]],
            detached = None\<rparr>"
    and "req_contents req
              = runSpecialist_prompt (userProfile (state this)) userText (buildContext this 5)"
    by blast
  then show ?thesis
    using turn_forward(2)[OF assms(1) a(1) r] a(1) by simp
next
  assume a: "currentRole (state this) = HOST"
  from run_no_marker(3)[OF assms(2,3), of PROMPTS userText s]
  obtain req where r: "runHost PROMPTS this userText s net =
           \<lparr>outcome = Inr (),
            system = this\<lparr>state := (state this)
               \<lparr>history := history (state this) @ [agent_message (asc ''Host'') resp s]\<rparr>\<rparr>,
            trace = [Fetch req, MessageUpdate [agent_message (asc ''Host'') resp s]],
            detached = None\<rparr>"
    and "req_contents req
              = runHost_prompt userText (buildContext this 5) (recommendations (state this))"
    by blast
  then show ?thesis
    using turn_forward(3)[OF assms(1) a(1) r] a(1) by simp
qed

lemma turn_failed:
  assumes "\<not> isBackwardRequest userText"
    and "outcome r = Inl (Error m)"
    and "r = (case currentRole (state this) of
                PROFILER \<Rightarrow> runProfiler PROMPTS this userText s net
              | SPECIALIST \<Rightarrow> runSpecialist PROMPTS this userText s net
              | CRITIC \<Rightarrow> \<lparr>outcome = Inr (), system = this, trace = [], detached = None\<rparr>
              | HOST \<Rightarrow> runHost PROMPTS this userText s net)"
  shows "processUserMessage PROMPTS this userText s net =
           \<lparr>outcome = Inl (Error m),
            system = (system r)\<lparr>state := (state (system r))
               \<lparr>history := history (state (system r))
                   @ [agent_message (asc ''System'') (error_prefix @ m @ error_suffix) s]\<rparr>\<rparr>,
            trace = AgentChange (getAgentName (currentRole (state this))) # trace r
                    @ [MessageUpdate [agent_message (asc ''System'') (error_prefix @ m @ error_suffix) s]],
            detached = detached r\<rparr>"
  using assms(1,2) unfolding assms(3)
  by (simp add: processUserMessage_def Let_def addSystemMessage_def addAgentMessage_eq)

lemma fetched_map_Fetch [simp]: "fetched (map Fetch sent) = sent"
  by (induction sent) auto

lemma blank_turn_fails:
  assumes "blank (apiKey this)" and "\<not> isBackwardRequest userText"
    and "currentRole (state this) \<noteq> CRITIC"
  shows "outcome (processUserMessage PROMPTS this userText s net)
           = Inl (Error (asc ''API key is empty or missing''))
         \<and> fetched (trace (processUserMessage PROMPTS this userText s net)) = []"
  using assms
  by (cases "currentRole (state this)")
    (simp_all add: processUserMessage_def runProfiler_def runSpecialist_def runHost_def
      callGemini_blank Let_def addSystemMessage_def addAgentMessage_eq)

lemma first_request:
  assumes "\<not> blank (apiKey this)"
  shows "\<exists>req rest. fetched (trace (runProfiler PROMPTS this u s net)) = req # rest
           \<and> req_contents req = runProfiler_prompt u (buildContext this 5)"
    and "\<exists>req rest. fetched (trace (runSpecialist PROMPTS this u s net)) = req # rest
           \<and> req_contents req
               = runSpecialist_prompt (userProfile (state this)) u (buildContext this 5)"
    and "\<exists>req rest. fetched (trace (runHost PROMPTS this u s net)) = req # rest
           \<and> req_contents req
               = runHost_prompt u (buildContext this 5) (recommendations (state this))"
proof -
  show "\<exists>req rest. fetched (trace (runProfiler PROMPTS this u s net)) = req # rest
           \<and> req_contents req = runProfiler_prompt u (buildContext this 5)"
    using callGemini_nonblank[OF assms, of "model this"
        "runProfiler_prompt u (buildContext this 5)" "Some (PROMPTS PROFILER)" net]
    by (auto simp add: runProfiler_def Let_def addAgentMessage_eq fetched_append
        split: sum.splits)
  show "\<exists>req rest. fetched (trace (runSpecialist PROMPTS this u s net)) = req # rest
           \<and> req_contents req
               = runSpecialist_prompt (userProfile (state this)) u (buildContext this 5)"
    using callGemini_nonblank[OF assms, of "model this"
        "runSpecialist_prompt (userProfile (state this)) u (buildContext this 5)"
        "Some (PROMPTS SPECIALIST)" net]
    by (auto simp add: runSpecialist_def Let_def addAgentMessage_eq fetched_append
        split: sum.splits prod.splits)
  show "\<exists>req rest. fetched (trace (runHost PROMPTS this u s net)) = req # rest
           \<and> req_contents req
               = runHost_prompt u (buildContext this 5) (recommendations (state this))"
    using callGemini_nonblank[OF assms, of "model this"
        "runHost_prompt u (buildContext this 5) (recommendations (state this))"
        "Some (PROMPTS HOST)" net]
    by (auto simp add: runHost_def Let_def addAgentMessage_eq fetched_append
        split: sum.splits)
qed

lemma fetched_turn:
  assumes "\<not> isBackwardRequest userText"
  shows "fetched (trace (processUserMessage PROMPTS this userText s net)) =
           fetched (trace (case currentRole (state this) of
              PROFILER \<Rightarrow> runProfiler PROMPTS this userText s net
            | SPECIALIST \<Rightarrow> runSpecialist PROMPTS this userText s net
            | CRITIC \<Rightarrow> \<lparr>outcome = Inr (), system = this, trace = [], detached = None\<rparr>
            | HOST \<Rightarrow> runHost PROMPTS this userText s net))"
  using assms
  by (simp add: processUserMessage_def Let_def addSystemMessage_def addAgentMessage_eq
      fetched_append split: sum.splits)

text \<open>
  Backward navigation with at least two entries on the stack, for every destination:
  one level is popped, the fields of the destination are cleared, no request is sent, and
  one message is emitted unless the destination is \<open>CRITIC\<close>.
\<close>

lemma goBack_pops_one_level:
  assumes "isBackwardRequest userText" and "1 < length (stateHistory (state this))"
  shows "let t = processUserMessage PROMPTS this userText s net;
             dest = last (butlast (stateHistory (state this)));
             before = state this; after = state (system t)
         in outcome t = Inr ()
            \<and> stateHistory after = butlast (stateHistory before)
            \<and> currentRole after = dest
            \<and> userProfile after = (if dest = PROFILER then [] else userProfile before)
            \<and> currentDemand after
                = (if dest = PROFILER \<or> dest = SPECIALIST then [] else currentDemand before)
            \<and> recommendations after
                = (if dest = PROFILER \<or> dest = SPECIALIST then [] else recommendations before)
            \<and> emitted (trace t)
                = (case dest of
                     PROFILER \<Rightarrow> [agent_message (asc ''Profiler'') goBack_profiler s]
                   | SPECIALIST \<Rightarrow> [agent_message (asc ''Genre Specialist'') goBack_specialist s]
                   | CRITIC \<Rightarrow> []
                   | HOST \<Rightarrow> [agent_message (asc ''Host'') goBack_host s])
            \<and> history after = history before @ emitted (trace t)
            \<and> fetched (trace t) = []
            \<and> detached t = None"
  using assms
  by (cases "last (butlast (stateHistory (state this)))")
    (simp_all add: processUserMessage_def goBack_def Let_def addAgentMessage_eq)

lemma fetched_goBack: "fetched (snd (snd (goBack this s))) = []"
  by (simp add: goBack_def Let_def addAgentMessage_eq)

lemma blank_turn:
  assumes "blank (apiKey this)"
  shows "fetched (trace (processUserMessage PROMPTS this userText s net)) = []"
    and "outcome (processUserMessage PROMPTS this userText s net)
           = (if isBackwardRequest userText \<or> currentRole (state this) = CRITIC then Inr ()
              else Inl (Error (asc ''API key is empty or missing'')))"
proof -
  show "fetched (trace (processUserMessage PROMPTS this userText s net)) = []"
  proof (cases "isBackwardRequest userText")
    case True
    then show ?thesis
      using fetched_goBack[of this s] by (simp add: processUserMessage_def split_beta)
  next
    case False
    show ?thesis
    proof (cases "currentRole (state this) = CRITIC")
      case True
      with False show ?thesis by (simp add: processUserMessage_def Let_def)
    next
      case c: False
      then show ?thesis using blank_turn_fails[OF assms False c] by simp
    qed
  qed
  show "outcome (processUserMessage PROMPTS this userText s net)
           = (if isBackwardRequest userText \<or> currentRole (state this) = CRITIC then Inr ()
              else Inl (Error (asc ''API key is empty or missing'')))"
  proof (cases "isBackwardRequest userText")
    case True
    then show ?thesis by (simp add: processUserMessage_def split_beta)
  next
    case False
    show ?thesis
    proof (cases "currentRole (state this) = CRITIC")
      case True
      with False show ?thesis by (simp add: processUserMessage_def Let_def)
    next
      case c: False
      then show ?thesis using blank_turn_fails[OF assms False c] False by simp
    qed
  qed
qed

lemma callGemini_sent:
  "fst (callGemini k m p si net) =
     (if blank k then []
      else [\<lparr>req_url = asc ''https://generativelanguage.googleapis.com/v1beta/models/'' @ m
                        @ asc '':generateContent?key='' @ k,
             req_contents = p,
             req_systemInstruction =
               (case si of None \<Rightarrow> None | Some x \<Rightarrow> if x = [] then None else Some x)\<rparr>])"
  by (simp add: callGemini_def callGemini_request_def blank_def)

lemma callGemini_settles:
  "\<not> blank k \<Longrightarrow> snd (callGemini k m p si net) = callGemini_response net"
  by (simp add: callGemini_def callGemini_request_def blank_def)

subsection \<open>The stage stack\<close>

lemma stack_invariant_history [simp]:
  "stack_invariant (this\<lparr>state := (state this)\<lparr>history := h\<rparr>\<rparr>) = stack_invariant this"
  by (simp add: stack_invariant_def)

lemma stack_invariant_addAgentMessage [simp]:
  "stack_invariant (fst (addAgentMessage this nm txt s)) = stack_invariant this"
  by (simp add: addAgentMessage_eq)

lemma stack_invariant_transitionTo [simp]: "stack_invariant (transitionTo this r)"
  by (simp add: transitionTo_def stack_invariant_def)

lemma stack_invariant_goBack:
  assumes "stack_invariant this"
  shows "stack_invariant (fst (snd (goBack this s)))"
proof (cases "length (stateHistory (state this)) \<le> 1")
  case True
  with assms show ?thesis by (simp add: goBack_def addAgentMessage_eq)
next
  case False
  then have "butlast (stateHistory (state this)) \<noteq> []"
    by (cases "stateHistory (state this)") (auto split: if_splits)
  with False show ?thesis
    by (simp add: goBack_def Let_def addAgentMessage_eq stack_invariant_def)
qed

lemma stack_invariant_runProfiler:
  "stack_invariant this \<Longrightarrow> stack_invariant (system (runProfiler PROMPTS this userInput s net))"
  by (simp add: runProfiler_def Let_def addAgentMessage_eq transitionTo_def stack_invariant_def
      split: prod.splits sum.splits)

lemma stack_invariant_runCriticAndHost_start:
  "stack_invariant this \<Longrightarrow> stack_invariant (fst (runCriticAndHost_start PROMPTS this))"
  by (simp add: runCriticAndHost_start_def Let_def split: sum.splits)

lemma stack_invariant_runSpecialist:
  "stack_invariant this \<Longrightarrow> stack_invariant (system (runSpecialist PROMPTS this userInput s net))"
  by (simp add: runSpecialist_def Let_def addAgentMessage_eq transitionTo_def stack_invariant_def
      runCriticAndHost_start_def split: prod.splits sum.splits)

lemma stack_invariant_runHost:
  "stack_invariant this \<Longrightarrow> stack_invariant (system (runHost PROMPTS this userInput s net))"
  by (simp add: runHost_def Let_def addAgentMessage_eq stack_invariant_def
      split: prod.splits sum.splits)

lemma stack_invariant_processUserMessage:
  assumes "stack_invariant this"
  shows "stack_invariant (system (processUserMessage PROMPTS this userText s net))"
proof (cases "isBackwardRequest userText")
  case True
  then show ?thesis
    using stack_invariant_goBack[OF assms, of s]
    by (simp add: processUserMessage_def split_beta)
next
  case False
  let ?r = "case currentRole (state this) of
              PROFILER \<Rightarrow> runProfiler PROMPTS this userText s net
            | SPECIALIST \<Rightarrow> runSpecialist PROMPTS this userText s net
            | CRITIC \<Rightarrow> \<lparr>outcome = Inr (), system = this, trace = [], detached = None\<rparr>
            | HOST \<Rightarrow> runHost PROMPTS this userText s net"
  have "stack_invariant (system ?r)"
    using assms stack_invariant_runProfiler stack_invariant_runSpecialist stack_invariant_runHost
    by (cases "currentRole (state this)") simp_all
  with False show ?thesis
    by (simp add: processUserMessage_def Let_def addSystemMessage_def addAgentMessage_eq
        split: sum.splits)
qed

lemma stack_invariant_resume:
  assumes "stack_invariant this"
  shows "stack_invariant (fst (resume PROMPTS tk this s net))"
  using assms
  by (cases tk)
    (simp_all add: resume_def runCriticAndHost_critic_def runCriticAndHost_host_def Let_def
      addAgentMessage_eq transitionTo_def stack_invariant_def split: sum.splits)

subsection \<open>The sample runs\<close>

lemma not_backward_samples:
  "\<not> isBackwardRequest (asc ''Alien'')" "\<not> isBackwardRequest (asc ''tense'')"
  by (simp_all add: isBackwardRequest_def backwardKeywords_def includes_str_def asc_def)

lemma backward_sample: "isBackwardRequest [36820, 22238]"
  by (simp add: isBackwardRequest_def backwardKeywords_def includes_str_def)

lemma nonblank_k: "\<not> blank (asc ''k'')"
  by (simp add: blank_def asc_def trim_def isWhiteSpace_def)

lemma blank_sample: "blank (asc ''  '')"
  by (simp add: blank_def asc_def trim_def isWhiteSpace_def)

lemma trim_samples:
  "trim (asc ''ok '') = asc ''ok''" "trim (asc '' sci-fi '') = asc ''sci-fi''"
  "trim (asc ''sure '') = asc ''sure''" "trim (asc '' thriller '') = asc ''thriller''"
  by (simp_all add: asc_def trim_def isWhiteSpace_def)

lemma first_marker_samples:
  "\<not> includes_str (asc ''ok '' @ butlast PROFILE_READY) PROFILE_READY"
  "\<not> includes_str (asc ''sure '' @ butlast DEMAND_LOCKED) DEMAND_LOCKED"
  by (simp_all add: includes_str_def asc_def PROFILE_READY_def DEMAND_LOCKED_def)

lemma no_marker_samples:
  "\<not> includes_str (asc ''Which films?'') PROFILE_READY"
  "\<not> includes_str (asc ''Which mood?'') DEMAND_LOCKED"
  by (simp_all add: includes_str_def asc_def PROFILE_READY_def DEMAND_LOCKED_def)

lemma at_profiler_facts:
  "\<not> blank (apiKey at_profiler)" "currentRole (state at_profiler) = PROFILER"
  using nonblank_k by (simp_all add: at_profiler_def new_AgentSystem_def)

lemma at_specialist_eq:
  "at_specialist =
     \<lparr>state = \<lparr>currentRole = SPECIALIST, userProfile = asc ''sci-fi'', currentDemand = [],
               recommendations = [],
               history = [agent_message (asc ''Profiler'') (asc ''ok'') stamp0],
               stateHistory = [PROFILER, SPECIALIST]\<rparr>,
      apiKey = asc ''k'', model = asc ''m''\<rparr>"
  unfolding at_specialist_def profiled_def
  using turn_profiler_marker_proj(2)[where post = "asc '' sci-fi ''" and PROMPTS = sample_PROMPTS
      and s = stamp0, OF not_backward_samples(1) at_profiler_facts
      callGemini_response_success first_marker_samples(1)]
  by (simp add: trim_samples at_profiler_def new_AgentSystem_def)

lemma at_specialist_facts:
  "\<not> blank (apiKey at_specialist)" "currentRole (state at_specialist) = SPECIALIST"
  using nonblank_k by (simp_all add: at_specialist_eq)

lemmas locked_raw = turn_specialist_marker_proj[where post = "asc '' thriller ''"
      and PROMPTS = sample_PROMPTS and s = stamp0, OF not_backward_samples(2) at_specialist_facts
      callGemini_response_success first_marker_samples(2), folded locked_def]

lemma locked_facts:
  "outcome locked = Inr ()"
  "system locked =
     \<lparr>state = \<lparr>currentRole = CRITIC, userProfile = asc ''sci-fi'',
               currentDemand = asc ''thriller'', recommendations = [],
               history = [agent_message (asc ''Profiler'') (asc ''ok'') stamp0,
                          agent_message (asc ''Genre Specialist'') (asc ''sure'') stamp0],
               stateHistory = [PROFILER, SPECIALIST, CRITIC]\<rparr>,
          apiKey = asc ''k'', model = asc ''m''\<rparr>"
  "detached locked = Some AwaitCritic"
  "emitted (trace locked) = [agent_message (asc ''Genre Specialist'') (asc ''sure'') stamp0]"
  "map req_contents (fetched (trace locked))
     = [runSpecialist_prompt (asc ''sci-fi'') (asc ''tense'') (buildContext at_specialist 5),
        criticPrompt (asc ''sci-fi'') (asc ''thriller'')]"
  using locked_raw by (simp_all add: trim_samples at_specialist_eq)

lemma at_critic_facts:
  "\<not> blank (apiKey at_critic)"
  using nonblank_k by (simp add: at_critic_def locked_facts)

lemma at_host_eq:
  "at_host =
     \<lparr>state = \<lparr>currentRole = HOST, userProfile = asc ''sci-fi'',
               currentDemand = asc ''thriller'', recommendations = asc ''Heat'',
               history = [agent_message (asc ''Profiler'') (asc ''ok'') stamp0,
                          agent_message (asc ''Genre Specialist'') (asc ''sure'') stamp0,
                          agent_message (asc ''Host'') (asc ''Watch Heat'') stamp0],
               stateHistory = [PROFILER, SPECIALIST, CRITIC, HOST]\<rparr>,
          apiKey = asc ''k'', model = asc ''m''\<rparr>"
proof -
  from resume_critic_ok[OF at_critic_facts callGemini_response_success, of sample_PROMPTS stamp0 "asc ''Heat''"]
  have "fst (resume sample_PROMPTS AwaitCritic at_critic stamp0 (success_with (asc ''Heat''))) =
          at_critic\<lparr>state := (state at_critic)\<lparr>recommendations := asc ''Heat'',
                     stateHistory := stateHistory (state at_critic) @ [HOST],
                     currentRole := HOST\<rparr>\<rparr>"
    by auto
  then show ?thesis
    by (simp add: at_host_def resume_host_ok[OF callGemini_response_success] at_critic_def
        locked_facts)
qed

lemma resume_at_critic:
  "state (fst (resume sample_PROMPTS AwaitCritic (system locked) stamp0
                 (success_with (asc ''Heat''))))
     = \<lparr>currentRole = HOST, userProfile = asc ''sci-fi'',
        currentDemand = asc ''thriller'', recommendations = asc ''Heat'',
        history = [agent_message (asc ''Profiler'') (asc ''ok'') stamp0,
                   agent_message (asc ''Genre Specialist'') (asc ''sure'') stamp0],
        stateHistory = [PROFILER, SPECIALIST, CRITIC, HOST]\<rparr>"
proof -
  from resume_critic_ok[OF at_critic_facts callGemini_response_success,
      of sample_PROMPTS stamp0 "asc ''Heat''"]
  show ?thesis by (auto simp add: at_critic_def locked_facts)
qed

lemma failing_sample:
  "snd (callGemini (apiKey at_profiler) (model at_profiler) p si (failure_with 503 (asc ''down'')))
     = Inl (Error (asc ''API Error '' @ toString 503 @ asc '': '' @ asc ''Error'' @ asc ''. ''
                   @ asc ''down''))"
  using at_profiler_facts(1)
  by (simp add: callGemini_def callGemini_request_def blank_def callGemini_response_failure)

lemma window_sample:
  "join (asc ''\<newline>'')
     (map (\<lambda>m. role_string (role m) @ asc '': '' @ content m)
        (drop (length (history (state at_specialist)) - 5) (history (state at_specialist))))
   = asc ''agent: ok''"
  by (simp add: at_specialist_eq agent_message_def asc_def)

subsection \<open>C1: a response with the completion marker\<close>

text \<open>
  C1 says that a response with the completion marker of the stage makes the turn store the
  trimmed text after the first marker as the payload, append the trimmed text before it
  as the reply, and advance one stage, except that \<open>SPECIALIST\<close> advances two stages, to
  \<open>HOST\<close> via \<open>CRITIC\<close>, in the same turn.  The code stores the payload and the reply as
  said (\<open>turn_profiler_marker_proj\<close> and \<open>turn_specialist_marker_proj\<close>, for every
  input), but \<^verbatim>\<open>runSpecialist\<close> calls \<^verbatim>\<open>runCriticAndHost\<close> without awaiting it.  On the
  sample run, where every generation call succeeds, the turn of the specialist resolves
  one stage further, at \<open>CRITIC\<close>; the advance to \<open>HOST\<close> is made by the run that was
  left behind, when the critic's answer arrives after the turn.
\<close>

theorem specialist_turn_resolves_at_critic:
  "currentRole (state at_specialist) = SPECIALIST
   \<and> stateHistory (state at_specialist) = [PROFILER, SPECIALIST]
   \<and> includes_str (asc ''sure '' @ DEMAND_LOCKED @ asc '' thriller '') DEMAND_LOCKED
   \<and> outcome locked = Inr ()
   \<and> currentDemand (state (system locked)) = asc ''thriller''
   \<and> map content (emitted (trace locked)) = [asc ''sure'']
   \<and> stateHistory (state (system locked)) = [PROFILER, SPECIALIST, CRITIC]
   \<and> currentRole (state (system locked)) = CRITIC
   \<and> detached locked = Some AwaitCritic
   \<and> stateHistory (state (fst (resume sample_PROMPTS AwaitCritic (system locked) stamp0
                                 (success_with (asc ''Heat'')))))
       = [PROFILER, SPECIALIST, CRITIC, HOST]
   \<and> currentRole (state (fst (resume sample_PROMPTS AwaitCritic (system locked) stamp0
                                 (success_with (asc ''Heat''))))) = HOST"
proof -
  have 1: "currentRole (state at_specialist) = SPECIALIST"
    "stateHistory (state at_specialist) = [PROFILER, SPECIALIST]"
    by (simp_all add: at_specialist_eq)
  have 2: "includes_str (asc ''sure '' @ DEMAND_LOCKED @ asc '' thriller '') DEMAND_LOCKED"
    by (rule includes_str_append)
  have 3: "currentDemand (state (system locked)) = asc ''thriller''"
    "map content (emitted (trace locked)) = [asc ''sure'']"
    "stateHistory (state (system locked)) = [PROFILER, SPECIALIST, CRITIC]"
    "currentRole (state (system locked)) = CRITIC"
    by (simp_all add: locked_facts agent_message_def)
  have 4: "stateHistory (state (fst (resume sample_PROMPTS AwaitCritic (system locked) stamp0
                                 (success_with (asc ''Heat'')))))
       = [PROFILER, SPECIALIST, CRITIC, HOST]"
    "currentRole (state (fst (resume sample_PROMPTS AwaitCritic (system locked) stamp0
                                 (success_with (asc ''Heat''))))) = HOST"
    by (simp_all only: resume_at_critic AgentState.simps)
  show ?thesis
    by (simp only: 1 2 3 4 locked_facts(1,3) simp_thms)
qed

subsection \<open>C2: the critic and the host after the demand marker\<close>

text \<open>
  C2 says that, when the specialist's answer carries \<^verbatim>\<open>||DEMAND_LOCKED||\<close>, the critic's
  and then the host's generation call are made and completed before the promise of
  \<^verbatim>\<open>processUserMessage\<close> resolves, and that the stage is \<open>HOST\<close> then.  The code calls
  \<^verbatim>\<open>runCriticAndHost\<close> without awaiting it.  On the sample run, when the promise
  resolves, the stage is \<open>CRITIC\<close>: only the critic's request has been sent (after the
  specialist's), no recommendation is stored yet, the host's request has not been sent,
  and the rest of \<^verbatim>\<open>runCriticAndHost\<close> is still waiting for the critic's answer.
  (\<open>runCriticAndHost_succeeds\<close> is the order of the two calls once that run goes on.)
\<close>

theorem unawaited_critic_and_host:
  "currentRole (state at_specialist) = SPECIALIST
   \<and> includes_str (asc ''sure '' @ DEMAND_LOCKED @ asc '' thriller '') DEMAND_LOCKED
   \<and> outcome locked = Inr ()
   \<and> currentRole (state (system locked)) = CRITIC
   \<and> stateHistory (state (system locked)) = [PROFILER, SPECIALIST, CRITIC]
   \<and> recommendations (state (system locked)) = []
   \<and> map req_contents (fetched (trace locked))
       = [runSpecialist_prompt (asc ''sci-fi'') (asc ''tense'') (buildContext at_specialist 5),
          criticPrompt (asc ''sci-fi'') (asc ''thriller'')]
   \<and> detached locked = Some AwaitCritic"
  by (simp add: at_specialist_facts includes_str_append locked_facts)

subsection \<open>C3: a failing generation call\<close>

text \<open>
  C3, as amended.  When the generation call that the turn awaits (the one of the
  \<open>PROFILER\<close>, \<open>SPECIALIST\<close> or \<open>HOST\<close> stage) fails with \<open>e\<close>, then \<open>e\<close> is an
  \<^verbatim>\<open>Error\<close> with a message \<open>m\<close>, the promise of the turn is rejected with \<open>e\<close>, the
  current stage and the stage stack (indeed every field but the history) are as before the
  call, and exactly one message is appended and emitted: a message of role \<open>agent\<close> whose
  agent name is \<open>System\<close> and whose content is the error text built from \<open>m\<close>.
\<close>

theorem failed_generation_call:
  assumes "\<not> isBackwardRequest userText"
    and "currentRole (state this) \<noteq> CRITIC"
    and "snd (callGemini (apiKey this) (model this) p si net) = Inl e"
  shows "\<exists>m. e = Error m
           \<and> (let t = processUserMessage PROMPTS this userText s net;
                   note = agent_message (asc ''System'') (error_prefix @ m @ error_suffix) s
               in outcome t = Inl e
                  \<and> system t = this\<lparr>state := (state this)
                                   \<lparr>history := history (state this) @ [note]\<rparr>\<rparr>
                  \<and> currentRole (state (system t)) = currentRole (state this)
                  \<and> stateHistory (state (system t)) = stateHistory (state this)
                  \<and> emitted (trace t) = [note]
                  \<and> role note = Agent
                  \<and> agentName note = Some (asc ''System'')
                  \<and> detached t = None)"
proof -
  obtain m where m: "e = Error m"
    using callGemini_fails_with_Error[OF assms(3)] by blast
  let ?r = "case currentRole (state this) of
                PROFILER \<Rightarrow> runProfiler PROMPTS this userText s net
              | SPECIALIST \<Rightarrow> runSpecialist PROMPTS this userText s net
              | CRITIC \<Rightarrow> \<lparr>outcome = Inr (), system = this, trace = [], detached = None\<rparr>
              | HOST \<Rightarrow> runHost PROMPTS this userText s net"
  have r: "outcome ?r = Inl (Error m) \<and> system ?r = this \<and> emitted (trace ?r) = []
           \<and> detached ?r = None"
    using run_failed[OF assms(3), of PROMPTS userText s] assms(2) m
    by (cases "currentRole (state this)") simp_all
  have "processUserMessage PROMPTS this userText s net =
           \<lparr>outcome = Inl (Error m),
            system = (system ?r)\<lparr>state := (state (system ?r))
               \<lparr>history := history (state (system ?r))
                   @ [agent_message (asc ''System'') (error_prefix @ m @ error_suffix) s]\<rparr>\<rparr>,
            trace = AgentChange (getAgentName (currentRole (state this))) # trace ?r
                    @ [MessageUpdate [agent_message (asc ''System'') (error_prefix @ m @ error_suffix) s]],
            detached = detached ?r\<rparr>"
    using r by (intro turn_failed[OF assms(1)]) simp_all
  then show ?thesis
    using r m by (simp add: Let_def emitted_append agent_message_def)
qed

text \<open>The theorem at concrete inputs of the sample runs.\<close>

theorem failed_generation_call_witness:
  "\<not> isBackwardRequest (asc ''Alien'')
   \<and> currentRole (state at_profiler) \<noteq> CRITIC
   \<and> snd (callGemini (apiKey at_profiler) (model at_profiler) [] None
            (failure_with 503 (asc ''down'')))
       = Inl (Error (asc ''API Error '' @ toString 503 @ asc '': '' @ asc ''Error'' @ asc ''. ''
                     @ asc ''down''))
   \<and> outcome (processUserMessage sample_PROMPTS at_profiler (asc ''Alien'') stamp0
                (failure_with 503 (asc ''down'')))
       = Inl (Error (asc ''API Error '' @ toString 503 @ asc '': '' @ asc ''Error'' @ asc ''. ''
                     @ asc ''down''))
   \<and> currentRole (state (system (processUserMessage sample_PROMPTS at_profiler (asc ''Alien'')
                                    stamp0 (failure_with 503 (asc ''down''))))) = PROFILER
   \<and> map agentName (emitted (trace (processUserMessage sample_PROMPTS at_profiler (asc ''Alien'')
                                    stamp0 (failure_with 503 (asc ''down'')))))
       = [Some (asc ''System'')]"
proof -
  have c: "currentRole (state at_profiler) \<noteq> CRITIC"
    by (simp add: at_profiler_facts)
  from failed_generation_call[where PROMPTS = sample_PROMPTS and s = stamp0,
      OF not_backward_samples(1) c failing_sample[of "[]" None]]
  show ?thesis
    using c by (auto simp add: Let_def not_backward_samples failing_sample at_profiler_facts
        agent_message_def)
qed

text \<open>
  C3 as stated fails: the one message appended after a failed generation call has the role
  \<open>agent\<close>, not \<open>system\<close>.
\<close>

theorem error_message_role_counterexample:
  "currentRole (state at_profiler) = PROFILER
   \<and> outcome (processUserMessage sample_PROMPTS at_profiler (asc ''Alien'') stamp0
                (failure_with 503 (asc ''down'')))
       = Inl (Error (asc ''API Error '' @ toString 503 @ asc '': '' @ asc ''Error'' @ asc ''. ''
                     @ asc ''down''))
   \<and> history (state at_profiler) = []
   \<and> map role (history (state (system (processUserMessage sample_PROMPTS at_profiler
                  (asc ''Alien'') stamp0 (failure_with 503 (asc ''down'')))))) = [Agent]
   \<and> map role (emitted (trace (processUserMessage sample_PROMPTS at_profiler
                  (asc ''Alien'') stamp0 (failure_with 503 (asc ''down''))))) = [Agent]"
proof -
  let ?e = "asc ''API Error '' @ toString 503 @ asc '': '' @ asc ''Error'' @ asc ''. ''
                     @ asc ''down''"
  note r = run_failed(1)[where PROMPTS = sample_PROMPTS and userInput = "asc ''Alien''"
      and s = stamp0, OF failing_sample[of "[]" None]]
  have "processUserMessage sample_PROMPTS at_profiler (asc ''Alien'') stamp0
          (failure_with 503 (asc ''down'')) =
        \<lparr>outcome = Inl (Error ?e),
         system = at_profiler\<lparr>state := (state at_profiler)
            \<lparr>history := history (state at_profiler)
                @ [agent_message (asc ''System'') (error_prefix @ ?e @ error_suffix) stamp0]\<rparr>\<rparr>,
         trace = AgentChange (getAgentName (currentRole (state at_profiler)))
                 # trace (runProfiler sample_PROMPTS at_profiler (asc ''Alien'') stamp0
                            (failure_with 503 (asc ''down'')))
                 @ [MessageUpdate [agent_message (asc ''System'') (error_prefix @ ?e @ error_suffix)
                                     stamp0]],
         detached = None\<rparr>"
    using turn_failed[where this = at_profiler and PROMPTS = sample_PROMPTS and s = stamp0
        and net = "failure_with 503 (asc ''down'')" and m = ?e
        and r = "runProfiler sample_PROMPTS at_profiler (asc ''Alien'') stamp0
                   (failure_with 503 (asc ''down''))", OF not_backward_samples(1)] r
    by (simp add: at_profiler_facts)
  then show ?thesis
    using r by (simp add: at_profiler_facts emitted_append agent_message_def at_profiler_def
        new_AgentSystem_def)
qed

subsection \<open>C4: a response without the completion marker\<close>

text \<open>
  C4.  Let the stage be \<open>PROFILER\<close>, \<open>SPECIALIST\<close> or \<open>HOST\<close>, the message not a
  backward-navigation request, and let the generation call answer \<open>resp\<close>, which lacks
  the marker of the stage (\<open>HOST\<close> has none).  Then the turn resolves, the stage and the
  stage stack are unchanged, and the whole answer, untrimmed, is appended and emitted as
  the one agent message of the turn; one request was sent.
\<close>

theorem response_without_marker:
  assumes "\<not> isBackwardRequest userText"
    and "\<not> blank (apiKey this)"
    and "callGemini_response net = Inr resp"
    and "currentRole (state this) = PROFILER \<and> \<not> includes_str resp PROFILE_READY
         \<or> currentRole (state this) = SPECIALIST \<and> \<not> includes_str resp DEMAND_LOCKED
         \<or> currentRole (state this) = HOST"
  shows "let t = processUserMessage PROMPTS this userText s net;
             reply = agent_message (getAgentName (currentRole (state this))) resp s
         in outcome t = Inr ()
            \<and> system t = this\<lparr>state := (state this)\<lparr>history := history (state this) @ [reply]\<rparr>\<rparr>
            \<and> currentRole (state (system t)) = currentRole (state this)
            \<and> stateHistory (state (system t)) = stateHistory (state this)
            \<and> emitted (trace t) = [reply]
            \<and> content reply = resp
            \<and> length (fetched (trace t)) = 1
            \<and> detached t = None"
  using turn_no_marker[OF assms, of PROMPTS s]
  by (auto simp add: Let_def agent_message_def)

text \<open>The theorem at concrete inputs of the sample runs.\<close>

theorem response_without_marker_witness:
  "\<not> isBackwardRequest (asc ''Alien'')
   \<and> \<not> blank (apiKey at_profiler) \<and> \<not> blank (apiKey at_specialist) \<and> \<not> blank (apiKey at_host)
   \<and> callGemini_response (success_with (asc ''Which films?'')) = Inr (asc ''Which films?'')
   \<and> currentRole (state at_profiler) = PROFILER
   \<and> \<not> includes_str (asc ''Which films?'') PROFILE_READY
   \<and> currentRole (state at_specialist) = SPECIALIST
   \<and> \<not> includes_str (asc ''Which mood?'') DEMAND_LOCKED
   \<and> currentRole (state at_host) = HOST
   \<and> currentRole (state (system (processUserMessage sample_PROMPTS at_profiler (asc ''Alien'')
         stamp0 (success_with (asc ''Which films?''))))) = PROFILER
   \<and> map content (emitted (trace (processUserMessage sample_PROMPTS at_profiler (asc ''Alien'')
         stamp0 (success_with (asc ''Which films?''))))) = [asc ''Which films?'']
   \<and> currentRole (state (system (processUserMessage sample_PROMPTS at_specialist (asc ''Alien'')
         stamp0 (success_with (asc ''Which mood?''))))) = SPECIALIST
   \<and> map content (emitted (trace (processUserMessage sample_PROMPTS at_specialist (asc ''Alien'')
         stamp0 (success_with (asc ''Which mood?''))))) = [asc ''Which mood?'']
   \<and> currentRole (state (system (processUserMessage sample_PROMPTS at_host (asc ''Alien'')
         stamp0 (success_with (asc ''sure '' @ DEMAND_LOCKED))))) = HOST
   \<and> map content (emitted (trace (processUserMessage sample_PROMPTS at_host (asc ''Alien'')
         stamp0 (success_with (asc ''sure '' @ DEMAND_LOCKED))))) = [asc ''sure '' @ DEMAND_LOCKED]"
proof -
  have nb: "\<not> blank (apiKey at_host)" using nonblank_k by (simp add: at_host_eq)
  have h: "currentRole (state at_host) = HOST" by (simp add: at_host_eq)
  note p = response_without_marker[where PROMPTS = sample_PROMPTS and s = stamp0,
      OF not_backward_samples(1) at_profiler_facts(1) callGemini_response_success,
      of "asc ''Which films?''"]
  note q = response_without_marker[where PROMPTS = sample_PROMPTS and s = stamp0,
      OF not_backward_samples(1) at_specialist_facts(1) callGemini_response_success,
      of "asc ''Which mood?''"]
  note r = response_without_marker[where PROMPTS = sample_PROMPTS and s = stamp0,
      OF not_backward_samples(1) nb callGemini_response_success,
      of "asc ''sure '' @ DEMAND_LOCKED"]
  show ?thesis
    using p q r nb h
    by (simp add: Let_def not_backward_samples at_profiler_facts at_specialist_facts
        no_marker_samples callGemini_response_success agent_message_def)
qed

subsection \<open>C5: backward navigation\<close>

text \<open>
  C5 says that a backward-navigation request, with more than one entry on the stage stack,
  pops one level, clears the fields of the destination, sends no request and emits one
  message that fits the destination.  \<open>goBack_pops_one_level\<close> is what the code does for
  every destination; it emits a message for \<open>PROFILER\<close>, \<open>SPECIALIST\<close> and \<open>HOST\<close> and
  has no branch for \<open>CRITIC\<close>.  On the sample run, after the conversation has reached
  \<open>HOST\<close> through \<open>CRITIC\<close>, the request pops one level and makes \<open>CRITIC\<close> the
  current stage, and no message at all is emitted.
\<close>

theorem goBack_to_critic_is_silent:
  "stateHistory (state at_host) = [PROFILER, SPECIALIST, CRITIC, HOST]
   \<and> currentRole (state at_host) = HOST
   \<and> isBackwardRequest [36820, 22238]
   \<and> currentRole (state (system (processUserMessage sample_PROMPTS at_host [36820, 22238] stamp0
                                    (success_with (asc ''hi''))))) = CRITIC
   \<and> stateHistory (state (system (processUserMessage sample_PROMPTS at_host [36820, 22238] stamp0
                                    (success_with (asc ''hi''))))) = [PROFILER, SPECIALIST, CRITIC]
   \<and> history (state (system (processUserMessage sample_PROMPTS at_host [36820, 22238] stamp0
                                    (success_with (asc ''hi''))))) = history (state at_host)
   \<and> trace (processUserMessage sample_PROMPTS at_host [36820, 22238] stamp0
               (success_with (asc ''hi''))) = []"
  by (simp add: at_host_eq backward_sample processUserMessage_def goBack_def Let_def)

subsection \<open>C6: backward navigation at the first stage\<close>

text \<open>
  C6.  When the user's message contains a backward-navigation keyword and the stage stack
  has exactly one entry, the turn resolves and the navigation is refused: the current
  stage, the stage stack, the profile, the demand and the recommendations are unchanged,
  exactly one message is appended and emitted, the explanation signed \<open>System\<close>, and no
  request is sent to the generation client.
\<close>

theorem goBack_refused_at_first_stage:
  assumes "isBackwardRequest userText"
    and "length (stateHistory (state this)) = 1"
  shows "let t = processUserMessage PROMPTS this userText s net;
             before = state this; after = state (system t);
             msg = agent_message (asc ''System'') goBack_refused s
         in outcome t = Inr ()
            \<and> currentRole after = currentRole before
            \<and> stateHistory after = stateHistory before
            \<and> userProfile after = userProfile before
            \<and> currentDemand after = currentDemand before
            \<and> recommendations after = recommendations before
            \<and> history after = history before @ [msg]
            \<and> emitted (trace t) = [msg]
            \<and> fetched (trace t) = []
            \<and> detached t = None"
  using assms by (simp add: processUserMessage_def goBack_def addAgentMessage_eq Let_def)

text \<open>The theorem at concrete inputs of the sample runs.\<close>

theorem goBack_refused_at_first_stage_witness:
  "isBackwardRequest [36820, 22238]
   \<and> length (stateHistory (state (new_AgentSystem (asc ''k'') (asc ''m'')))) = 1
   \<and> (let t = processUserMessage (\<lambda>r. []) (new_AgentSystem (asc ''k'') (asc ''m''))
                 [36820, 22238] \<lparr>stamp_now = 1, stamp_random = asc ''r'', stamp_time = 2\<rparr>
                 (Inl NonError)
       in currentRole (state (system t)) = PROFILER
          \<and> stateHistory (state (system t)) = [PROFILER]
          \<and> fetched (trace t) = [])"
proof -
  have h1: "isBackwardRequest [36820, 22238]"
    by (simp add: isBackwardRequest_def backwardKeywords_def includes_str_def)
  have h2: "length (stateHistory (state (new_AgentSystem (asc ''k'') (asc ''m'')))) = 1"
    by (simp add: new_AgentSystem_def)
  show ?thesis
    using h1 h2 goBack_refused_at_first_stage [OF h1 h2, of "\<lambda>r. []"
        "\<lparr>stamp_now = 1, stamp_random = asc ''r'', stamp_time = 2\<rparr>" "Inl NonError"]
    by (simp add: Let_def new_AgentSystem_def)
qed

subsection \<open>C7: the stage stack\<close>

text \<open>
  C7.  The invariant, that the stage stack is not empty and the current stage is its top
  entry, holds for a newly constructed object and is preserved by every operation:
  \<^verbatim>\<open>setHistory\<close>, a stage advance (\<^verbatim>\<open>transitionTo\<close>), backward navigation (\<^verbatim>\<open>goBack\<close>),
  a whole turn of \<^verbatim>\<open>processUserMessage\<close> however the generation call ends, and every
  continuation of the run of \<^verbatim>\<open>runCriticAndHost\<close> that a turn leaves behind.
\<close>

theorem stack_invariant_preserved:
  "stack_invariant (new_AgentSystem k m)
   \<and> (stack_invariant this \<longrightarrow>
        stack_invariant (setHistory this h)
        \<and> stack_invariant (transitionTo this r)
        \<and> stack_invariant (fst (snd (goBack this s)))
        \<and> stack_invariant (system (processUserMessage PROMPTS this userText s net))
        \<and> stack_invariant (fst (resume PROMPTS tk this s net)))"
  using stack_invariant_goBack stack_invariant_processUserMessage stack_invariant_resume
  by (simp add: new_AgentSystem_def setHistory_def stack_invariant_def[of "\<lparr>state = _, apiKey = _, model = _\<rparr>"])

text \<open>The theorem at concrete inputs of the sample runs.\<close>

theorem stack_invariant_preserved_witness:
  "stack_invariant at_specialist
   \<and> stack_invariant (setHistory at_specialist [])
   \<and> stack_invariant (transitionTo at_specialist CRITIC)
   \<and> stack_invariant (fst (snd (goBack at_specialist stamp0)))
   \<and> stack_invariant (system locked)
   \<and> stack_invariant (fst (resume sample_PROMPTS AwaitCritic at_specialist stamp0
                              (success_with (asc ''Heat''))))"
proof -
  have h: "stack_invariant at_specialist"
    by (simp add: at_specialist_eq stack_invariant_def)
  note t = stack_invariant_preserved[where this = at_specialist and PROMPTS = sample_PROMPTS
      and s = stamp0 and userText = "asc ''tense''" and h = "[]" and r = CRITIC
      and tk = AwaitCritic and k = "[]" and m = "[]"
      and net = "success_with (asc ''sure '' @ DEMAND_LOCKED @ asc '' thriller '')",
      THEN conjunct2, THEN mp, OF h, folded locked_def]
  note u = stack_invariant_preserved[where this = at_specialist and PROMPTS = sample_PROMPTS
      and s = stamp0 and tk = AwaitCritic and k = "[]" and m = "[]"
      and net = "success_with (asc ''Heat'')",
      THEN conjunct2, THEN mp, OF h]
  show ?thesis
    using h t u by simp
qed

subsection \<open>C8: outcomes of the generation client\<close>

text \<open>
  C8, as amended.  \<^verbatim>\<open>callGemini\<close> fails with the configuration error without sending a
  request if and only if the credential is empty or whitespace.  With any other credential
  it sends exactly one request, with the URL, the prompt and the system instruction, and
  its result follows the answer of the network: an \<^verbatim>\<open>Error\<close> thrown by \<^verbatim>\<open>fetch\<close>, by
  reading the body, by parsing the JSON or by reading the text of the first candidate is
  passed on unchanged; a thrown value that is not an \<^verbatim>\<open>Error\<close> is replaced by the generic
  error; a non-success status whose body can be read gives the error with status and body;
  a response without candidates gives the protocol error; otherwise the text of the first
  candidate is returned.  So every failure is an \<^verbatim>\<open>Error\<close> with a message.  A turn of
  \<^verbatim>\<open>processUserMessage\<close> with an empty or whitespace credential sends no request; it is
  rejected with the configuration error unless the message is a backward-navigation
  request or the stage is \<open>CRITIC\<close>, in which case it resolves.
\<close>

theorem callGemini_outcomes:
  "(callGemini k m p si net = ([], Inl (Error (asc ''API key is empty or missing''))) \<longleftrightarrow> blank k)
   \<and> (blank (apiKey this) \<longrightarrow>
        fetched (trace (processUserMessage PROMPTS this userText s net)) = []
        \<and> outcome (processUserMessage PROMPTS this userText s net)
            = (if isBackwardRequest userText \<or> currentRole (state this) = CRITIC then Inr ()
               else Inl (Error (asc ''API key is empty or missing''))))
   \<and> (\<not> blank k \<longrightarrow>
        fst (callGemini k m p si net)
          = [\<lparr>req_url = asc ''https://generativelanguage.googleapis.com/v1beta/models/'' @ m
                         @ asc '':generateContent?key='' @ k,
              req_contents = p,
              req_systemInstruction =
                (case si of None \<Rightarrow> None | Some x \<Rightarrow> if x = [] then None else Some x)\<rparr>]
        \<and> (net = Inl (Error msg) \<longrightarrow> snd (callGemini k m p si net) = Inl (Error msg))
        \<and> (net = Inl NonError \<longrightarrow>
             snd (callGemini k m p si net)
               = Inl (Error (asc ''Unknown error occurred during API call'')))
        \<and> (net = Inr r \<and> \<not> ok r \<and> response_text r = Inr body \<longrightarrow>
             snd (callGemini k m p si net)
               = Inl (Error (asc ''API Error '' @ toString (status r) @ asc '': '' @ statusText r
                             @ asc ''. '' @ body)))
        \<and> (net = Inr r \<and> \<not> ok r \<and> response_text r = Inl (Error msg) \<longrightarrow>
             snd (callGemini k m p si net) = Inl (Error msg))
        \<and> (net = Inr r \<and> \<not> ok r \<and> response_text r = Inl NonError \<longrightarrow>
             snd (callGemini k m p si net)
               = Inl (Error (asc ''Unknown error occurred during API call'')))
        \<and> (net = Inr r \<and> ok r \<and> response_json r = Inl (Error msg) \<longrightarrow>
             snd (callGemini k m p si net) = Inl (Error msg))
        \<and> (net = Inr r \<and> ok r \<and> response_json r = Inl NonError \<longrightarrow>
             snd (callGemini k m p si net)
               = Inl (Error (asc ''Unknown error occurred during API call'')))
        \<and> (net = Inr r \<and> ok r \<and> response_json r = Inr (Nullish msg) \<longrightarrow>
             snd (callGemini k m p si net) = Inl (Error msg))
        \<and> (net = Inr r \<and> ok r
             \<and> (response_json r = Inr (Data None) \<or> response_json r = Inr (Data (Some [])))
             \<longrightarrow> snd (callGemini k m p si net)
                   = Inl (Error (asc ''No candidates returned from API'')))
        \<and> (net = Inr r \<and> ok r \<and> response_json r = Inr (Data (Some (Unreadable msg # cs)))
             \<longrightarrow> snd (callGemini k m p si net) = Inl (Error msg))
        \<and> (net = Inr r \<and> ok r \<and> response_json r = Inr (Data (Some (Text t # cs)))
             \<longrightarrow> snd (callGemini k m p si net) = Inr t))
   \<and> snd (callGemini k m p si net) \<noteq> Inl NonError"
proof (intro conjI impI)
  show "(callGemini k m p si net = ([], Inl (Error (asc ''API key is empty or missing'')))) = blank k"
    by (auto simp add: callGemini_def callGemini_request_def blank_def)
  show "snd (callGemini k m p si net) \<noteq> Inl NonError"
    using callGemini_fails_with_Error[of k m p si net NonError] by auto
qed (auto simp add: blank_turn callGemini_sent callGemini_settles
      callGemini_response_def callGemini_try_def callGemini_catch_def)

text \<open>The theorem at concrete inputs of the sample runs.\<close>

theorem callGemini_outcomes_witness:
  "blank (asc ''  '')
   \<and> callGemini (asc ''  '') (asc ''m'') (asc ''p'') None (success_with (asc ''Heat''))
       = ([], Inl (Error (asc ''API key is empty or missing'')))
   \<and> blank (apiKey (new_AgentSystem (asc ''  '') (asc ''m'')))
   \<and> \<not> isBackwardRequest (asc ''Alien'')
   \<and> outcome (processUserMessage sample_PROMPTS (new_AgentSystem (asc ''  '') (asc ''m''))
                (asc ''Alien'') stamp0 (success_with (asc ''Heat'')))
       = Inl (Error (asc ''API key is empty or missing''))
   \<and> fetched (trace (processUserMessage sample_PROMPTS (new_AgentSystem (asc ''  '') (asc ''m''))
                (asc ''Alien'') stamp0 (success_with (asc ''Heat'')))) = []
   \<and> \<not> blank (asc ''k'')
   \<and> length (fst (callGemini (asc ''k'') (asc ''m'') (asc ''p'') None
                     (failure_with 503 (asc ''down'')))) = 1
   \<and> snd (callGemini (asc ''k'') (asc ''m'') (asc ''p'') None (failure_with 503 (asc ''down'')))
       = Inl (Error (asc ''API Error '' @ toString 503 @ asc '': '' @ asc ''Error'' @ asc ''. ''
                     @ asc ''down''))
   \<and> snd (callGemini (asc ''k'') (asc ''m'') (asc ''p'') None
            (Inr \<lparr>ok = True, status = 200, statusText = asc ''OK'', response_text = Inr [],
                  response_json = Inr (Data (Some []))\<rparr>))
       = Inl (Error (asc ''No candidates returned from API''))
   \<and> snd (callGemini (asc ''k'') (asc ''m'') (asc ''p'') None (Inl NonError))
       = Inl (Error (asc ''Unknown error occurred during API call''))
   \<and> snd (callGemini (asc ''k'') (asc ''m'') (asc ''p'') None (Inl (Error (asc ''Failed to fetch''))))
       = Inl (Error (asc ''Failed to fetch''))
   \<and> snd (callGemini (asc ''k'') (asc ''m'') (asc ''p'') None (success_with (asc ''Heat'')))
       = Inr (asc ''Heat'')"
proof -
  have b: "blank (apiKey (new_AgentSystem (asc ''  '') (asc ''m'')))"
    using blank_sample by (simp add: new_AgentSystem_def)
  have c: "currentRole (state (new_AgentSystem (asc ''  '') (asc ''m''))) \<noteq> CRITIC"
    by (simp add: new_AgentSystem_def)
  note blankcase = callGemini_outcomes[where k = "asc ''  ''" and m = "asc ''m''"
      and p = "asc ''p''" and si = None and net = "success_with (asc ''Heat'')"
      and this = "new_AgentSystem (asc ''  '') (asc ''m'')" and userText = "asc ''Alien''"
      and PROMPTS = sample_PROMPTS and s = stamp0]
  note failure = callGemini_outcomes[where k = "asc ''k''" and m = "asc ''m''"
      and p = "asc ''p''" and si = None and net = "failure_with 503 (asc ''down'')"
      and r = "\<lparr>ok = False, status = 503, statusText = asc ''Error'',
                 response_text = Inr (asc ''down''),
                 response_json = Inl (Error (asc ''Unexpected token''))\<rparr>"
      and body = "asc ''down''",
      THEN conjunct2, THEN conjunct2, THEN conjunct1, THEN mp, OF nonblank_k]
  note empty = callGemini_outcomes[where k = "asc ''k''" and m = "asc ''m''"
      and p = "asc ''p''" and si = None
      and net = "Inr \<lparr>ok = True, status = 200, statusText = asc ''OK'', response_text = Inr [],
                  response_json = Inr (Data (Some []))\<rparr>"
      and r = "\<lparr>ok = True, status = 200, statusText = asc ''OK'', response_text = Inr [],
                  response_json = Inr (Data (Some []))\<rparr>",
      THEN conjunct2, THEN conjunct2, THEN conjunct1, THEN mp, OF nonblank_k]
  note thrown = callGemini_outcomes[where k = "asc ''k''" and m = "asc ''m''"
      and p = "asc ''p''" and si = None and net = "Inl NonError",
      THEN conjunct2, THEN conjunct2, THEN conjunct1, THEN mp, OF nonblank_k]
  note passed = callGemini_outcomes[where k = "asc ''k''" and m = "asc ''m''"
      and p = "asc ''p''" and si = None and net = "Inl (Error (asc ''Failed to fetch''))"
      and msg = "asc ''Failed to fetch''",
      THEN conjunct2, THEN conjunct2, THEN conjunct1, THEN mp, OF nonblank_k]
  note success = callGemini_outcomes[where k = "asc ''k''" and m = "asc ''m''"
      and p = "asc ''p''" and si = None and net = "success_with (asc ''Heat'')"
      and r = "\<lparr>ok = True, status = 200, statusText = asc ''OK'', response_text = Inr [],
                  response_json = Inr (Data (Some [Text (asc ''Heat'')]))\<rparr>"
      and t = "asc ''Heat''" and cs = "[]",
      THEN conjunct2, THEN conjunct2, THEN conjunct1, THEN mp, OF nonblank_k]
  have 1: "callGemini (asc ''  '') (asc ''m'') (asc ''p'') None (success_with (asc ''Heat''))
       = ([], Inl (Error (asc ''API key is empty or missing'')))"
    using blankcase[THEN conjunct1] blank_sample by blast
  have 2: "outcome (processUserMessage sample_PROMPTS (new_AgentSystem (asc ''  '') (asc ''m''))
                (asc ''Alien'') stamp0 (success_with (asc ''Heat'')))
       = Inl (Error (asc ''API key is empty or missing''))"
    "fetched (trace (processUserMessage sample_PROMPTS (new_AgentSystem (asc ''  '') (asc ''m''))
                (asc ''Alien'') stamp0 (success_with (asc ''Heat'')))) = []"
    using blankcase[THEN conjunct2, THEN conjunct1, THEN mp, OF b] c not_backward_samples(1)
    by simp_all
  have 3: "length (fst (callGemini (asc ''k'') (asc ''m'') (asc ''p'') None
                     (failure_with 503 (asc ''down'')))) = 1"
    using failure[THEN conjunct1] by simp
  have 4: "snd (callGemini (asc ''k'') (asc ''m'') (asc ''p'') None (failure_with 503 (asc ''down'')))
       = Inl (Error (asc ''API Error '' @ toString 503 @ asc '': '' @ asc ''Error'' @ asc ''. ''
                     @ asc ''down''))"
    using failure[THEN conjunct2, THEN conjunct2, THEN conjunct2, THEN conjunct1]
    by (simp add: failure_with_def)
  have 5: "snd (callGemini (asc ''k'') (asc ''m'') (asc ''p'') None
            (Inr \<lparr>ok = True, status = 200, statusText = asc ''OK'', response_text = Inr [],
                  response_json = Inr (Data (Some []))\<rparr>))
       = Inl (Error (asc ''No candidates returned from API''))"
    using empty[THEN conjunct2, THEN conjunct2, THEN conjunct2, THEN conjunct2, THEN conjunct2,
        THEN conjunct2, THEN conjunct2, THEN conjunct2, THEN conjunct2, THEN conjunct1]
    by simp
  have 6: "snd (callGemini (asc ''k'') (asc ''m'') (asc ''p'') None (Inl NonError))
       = Inl (Error (asc ''Unknown error occurred during API call''))"
    using thrown[THEN conjunct2, THEN conjunct2, THEN conjunct1] by simp
  have 7: "snd (callGemini (asc ''k'') (asc ''m'') (asc ''p'') None
                  (Inl (Error (asc ''Failed to fetch''))))
       = Inl (Error (asc ''Failed to fetch''))"
    using passed[THEN conjunct2, THEN conjunct1] by simp
  have 8: "snd (callGemini (asc ''k'') (asc ''m'') (asc ''p'') None (success_with (asc ''Heat'')))
       = Inr (asc ''Heat'')"
    using success[THEN conjunct2, THEN conjunct2, THEN conjunct2, THEN conjunct2, THEN conjunct2,
        THEN conjunct2, THEN conjunct2, THEN conjunct2, THEN conjunct2, THEN conjunct2,
        THEN conjunct2]
    by (simp add: success_with_def)
  show ?thesis
    by (simp only: 1 2 3 4 5 6 7 8 b blank_sample nonblank_k not_backward_samples simp_thms)
qed

text \<open>
  C8 as stated fails: an \<^verbatim>\<open>Error\<close> thrown by \<^verbatim>\<open>fetch\<close> leaves \<^verbatim>\<open>callGemini\<close> as it is,
  not as the generic error; a non-success status whose body cannot be read gives the
  error of the reading, without status or body; an empty credential sends no request at
  all; and a backward-navigation turn with an empty credential resolves.
\<close>

theorem errors_pass_unchanged_counterexample:
  "\<not> blank (asc ''k'')
   \<and> snd (callGemini (asc ''k'') (asc ''m'') (asc ''p'') None (Inl (Error (asc ''Failed to fetch''))))
       = Inl (Error (asc ''Failed to fetch''))
   \<and> asc ''Failed to fetch'' \<noteq> asc ''Unknown error occurred during API call''
   \<and> snd (callGemini (asc ''k'') (asc ''m'') (asc ''p'') None
            (Inr \<lparr>ok = False, status = 503, statusText = asc ''Error'',
                  response_text = Inl (Error (asc ''body stream error'')),
                  response_json = Inl (Error (asc ''body stream error''))\<rparr>))
       = Inl (Error (asc ''body stream error''))
   \<and> blank []
   \<and> fst (callGemini [] (asc ''m'') (asc ''p'') None (success_with (asc ''Heat''))) = []
   \<and> blank (apiKey (new_AgentSystem [] (asc ''m'')))
   \<and> isBackwardRequest [36820, 22238]
   \<and> outcome (processUserMessage sample_PROMPTS (new_AgentSystem [] (asc ''m''))
                [36820, 22238] stamp0 (success_with (asc ''Heat''))) = Inr ()"
proof -
  have b: "blank []" by (simp add: blank_def)
  have 1: "snd (callGemini (asc ''k'') (asc ''m'') (asc ''p'') None
                  (Inl (Error (asc ''Failed to fetch''))))
       = Inl (Error (asc ''Failed to fetch''))"
    by (simp add: callGemini_settles[OF nonblank_k] callGemini_response_def callGemini_try_def
        callGemini_catch_def)
  have 2: "asc ''Failed to fetch'' \<noteq> asc ''Unknown error occurred during API call''"
    by (simp add: asc_def)
  have 3: "snd (callGemini (asc ''k'') (asc ''m'') (asc ''p'') None
            (Inr \<lparr>ok = False, status = 503, statusText = asc ''Error'',
                  response_text = Inl (Error (asc ''body stream error'')),
                  response_json = Inl (Error (asc ''body stream error''))\<rparr>))
       = Inl (Error (asc ''body stream error''))"
    by (simp add: callGemini_settles[OF nonblank_k] callGemini_response_def callGemini_try_def
        callGemini_catch_def)
  have 4: "fst (callGemini [] (asc ''m'') (asc ''p'') None (success_with (asc ''Heat''))) = []"
    using b by (simp add: callGemini_sent)
  have 5: "blank (apiKey (new_AgentSystem [] (asc ''m'')))"
    using b by (simp add: new_AgentSystem_def)
  have 6: "outcome (processUserMessage sample_PROMPTS (new_AgentSystem [] (asc ''m''))
                [36820, 22238] stamp0 (success_with (asc ''Heat''))) = Inr ()"
    using backward_sample by (simp add: blank_turn(2)[OF 5])
  show ?thesis
    using 2 by (simp only: nonblank_k 1 3 b 4 5 6 backward_sample simp_thms)
qed

subsection \<open>C9: what the prompts embed\<close>

text \<open>
  C9, as amended.  With a credential that is not blank, the prompt sent first in a turn at
  stage \<open>PROFILER\<close>, \<open>SPECIALIST\<close> or \<open>HOST\<close> embeds the raw user input and the last
  five entries of the history, each as a \<open>role: content\<close> line, joined by newlines; the
  specialist's prompt embeds the profile as well, and the host's prompt of such a turn the
  recommendations.  The critic's prompt is built from the profile and the demand alone,
  and the host's prompt that follows the critic from the critic's answer, the profile and
  the demand alone.
\<close>

theorem prompts_embed:
  assumes "\<not> blank (apiKey this)"
  shows "let h = history (state this);
             window = join (asc ''\<newline>'')
                        (map (\<lambda>m. role_string (role m) @ asc '': '' @ content m)
                           (drop (length h - 5) h));
             profile = userProfile (state this);
             demand = currentDemand (state this);
             recs = recommendations (state this);
             sent = fetched (trace (processUserMessage PROMPTS this userText s net))
         in (\<not> isBackwardRequest userText \<longrightarrow>
               (currentRole (state this) = PROFILER \<longrightarrow>
                  (\<exists>req rest. sent = req # rest
                     \<and> includes_str (req_contents req) userText
                     \<and> includes_str (req_contents req) window))
               \<and> (currentRole (state this) = SPECIALIST \<longrightarrow>
                  (\<exists>req rest. sent = req # rest
                     \<and> includes_str (req_contents req) userText
                     \<and> includes_str (req_contents req) window
                     \<and> includes_str (req_contents req) profile))
               \<and> (currentRole (state this) = HOST \<longrightarrow>
                  (\<exists>req rest. sent = req # rest
                     \<and> includes_str (req_contents req) userText
                     \<and> includes_str (req_contents req) window
                     \<and> includes_str (req_contents req) recs)))
            \<and> (\<exists>req. fetched (fst (snd (runCriticAndHost_start PROMPTS this))) = [req]
                   \<and> req_contents req = criticPrompt profile demand
                   \<and> includes_str (req_contents req) profile
                   \<and> includes_str (req_contents req) demand)
            \<and> (\<forall>netC answer. callGemini_response netC = Inr answer \<longrightarrow>
                  (\<exists>req. fetched (fst (snd (resume PROMPTS AwaitCritic this s netC))) = [req]
                     \<and> req_contents req = hostPrompt answer profile demand
                     \<and> includes_str (req_contents req) answer
                     \<and> includes_str (req_contents req) profile
                     \<and> includes_str (req_contents req) demand))"
proof -
  note w = buildContext_window[of this, symmetric]
  have turn: "\<not> isBackwardRequest userText \<Longrightarrow> currentRole (state this) = PROFILER \<Longrightarrow>
         \<exists>req rest. fetched (trace (processUserMessage PROMPTS this userText s net)) = req # rest
            \<and> includes_str (req_contents req) userText
            \<and> includes_str (req_contents req) (buildContext this 5)"
       "\<not> isBackwardRequest userText \<Longrightarrow> currentRole (state this) = SPECIALIST \<Longrightarrow>
         \<exists>req rest. fetched (trace (processUserMessage PROMPTS this userText s net)) = req # rest
            \<and> includes_str (req_contents req) userText
            \<and> includes_str (req_contents req) (buildContext this 5)
            \<and> includes_str (req_contents req) (userProfile (state this))"
       "\<not> isBackwardRequest userText \<Longrightarrow> currentRole (state this) = HOST \<Longrightarrow>
         \<exists>req rest. fetched (trace (processUserMessage PROMPTS this userText s net)) = req # rest
            \<and> includes_str (req_contents req) userText
            \<and> includes_str (req_contents req) (buildContext this 5)
            \<and> includes_str (req_contents req) (recommendations (state this))"
    using first_request[OF assms, of PROMPTS userText s net]
    by (auto simp add: fetched_turn prompt_embeds)
  have critic: "\<exists>req. fetched (fst (snd (runCriticAndHost_start PROMPTS this))) = [req]
                   \<and> req_contents req
                      = criticPrompt (userProfile (state this)) (currentDemand (state this))
                   \<and> includes_str (req_contents req) (userProfile (state this))
                   \<and> includes_str (req_contents req) (currentDemand (state this))"
    using runCriticAndHost_start_nonblank[OF assms, of PROMPTS]
    by (auto simp add: prompt_embeds)
  have host: "\<exists>req. fetched (fst (snd (resume PROMPTS AwaitCritic this s netC))) = [req]
                     \<and> req_contents req
                        = hostPrompt answer (userProfile (state this)) (currentDemand (state this))
                     \<and> includes_str (req_contents req) answer
                     \<and> includes_str (req_contents req) (userProfile (state this))
                     \<and> includes_str (req_contents req) (currentDemand (state this))"
    if "callGemini_response netC = Inr answer" for netC answer
    using resume_critic_ok[OF assms that, of PROMPTS s]
    by (auto simp add: prompt_embeds)
  show ?thesis
    unfolding Let_def w using turn critic host by blast
qed

text \<open>The theorem at concrete inputs of the sample runs.\<close>

theorem prompts_embed_witness:
  "\<not> blank (apiKey at_specialist)
   \<and> \<not> isBackwardRequest (asc ''tense'')
   \<and> currentRole (state at_specialist) = SPECIALIST
   \<and> includes_str (req_contents (hd (fetched (trace locked)))) (asc ''tense'')
   \<and> includes_str (req_contents (hd (fetched (trace locked)))) (asc ''agent: ok'')
   \<and> includes_str (req_contents (hd (fetched (trace locked)))) (asc ''sci-fi'')
   \<and> callGemini_response (success_with (asc ''Heat'')) = Inr (asc ''Heat'')
   \<and> includes_str
         (req_contents (hd (fetched (fst (snd (resume sample_PROMPTS AwaitCritic at_specialist
                                                 stamp0 (success_with (asc ''Heat''))))))))
         (asc ''Heat'')"
proof -
  note T = prompts_embed[where this = at_specialist and PROMPTS = sample_PROMPTS
      and userText = "asc ''tense''" and s = stamp0
      and net = "success_with (asc ''sure '' @ DEMAND_LOCKED @ asc '' thriller '')",
      OF at_specialist_facts(1), unfolded Let_def, folded locked_def]
  from T[THEN conjunct1, THEN mp, OF not_backward_samples(2), THEN conjunct2, THEN conjunct1,
      THEN mp, OF at_specialist_facts(2), unfolded window_sample]
  have a: "includes_str (req_contents (hd (fetched (trace locked)))) (asc ''tense'')
           \<and> includes_str (req_contents (hd (fetched (trace locked)))) (asc ''agent: ok'')
           \<and> includes_str (req_contents (hd (fetched (trace locked)))) (asc ''sci-fi'')"
    by (auto simp add: at_specialist_eq)
  from T[THEN conjunct2, THEN conjunct2, rule_format,
      OF callGemini_response_success[of "asc ''Heat''"]]
  have b: "includes_str
         (req_contents (hd (fetched (fst (snd (resume sample_PROMPTS AwaitCritic at_specialist
                                                 stamp0 (success_with (asc ''Heat''))))))))
         (asc ''Heat'')"
    by auto
  show ?thesis
    using a b
    by (simp only: at_specialist_facts not_backward_samples callGemini_response_success simp_thms)
qed

text \<open>
  C9 as stated fails: the critic's prompt of the sample run embeds neither the user input
  of the turn nor the line of the history.
\<close>

theorem critic_prompt_counterexample:
  "map req_contents (fetched (trace locked))
     = [runSpecialist_prompt (asc ''sci-fi'') (asc ''tense'') (buildContext at_specialist 5),
        criticPrompt (asc ''sci-fi'') (asc ''thriller'')]
   \<and> buildContext at_specialist 5 = asc ''agent: ok''
   \<and> \<not> includes_str (criticPrompt (asc ''sci-fi'') (asc ''thriller'')) (asc ''tense'')
   \<and> \<not> includes_str (criticPrompt (asc ''sci-fi'') (asc ''thriller'')) (asc ''agent: ok'')"
proof -
  have "\<not> includes_str (criticPrompt (asc ''sci-fi'') (asc ''thriller'')) (asc ''tense'')"
    by (simp add: includes_str_def criticPrompt_def asc_def)
  moreover
  have "\<not> includes_str (criticPrompt (asc ''sci-fi'') (asc ''thriller'')) (asc ''agent: ok'')"
    by (simp add: includes_str_def criticPrompt_def asc_def)
  moreover have "buildContext at_specialist 5 = asc ''agent: ok''"
    by (simp only: buildContext_window window_sample)
  ultimately show ?thesis
    by (simp only: locked_facts simp_thms)
qed

subsection \<open>C10: a turn at the critic stage\<close>

text \<open>
  C10.  When the current stage is \<open>CRITIC\<close> and the user's message is not a
  backward-navigation request, the turn resolves after the agent-name notification
  (\<open>Critic\<close>) and does nothing else: no request is sent, no message is appended or emitted,
  and the object, with every field of its state, is unchanged.
\<close>

theorem critic_turn_is_noop:
  assumes "currentRole (state this) = CRITIC"
    and "\<not> isBackwardRequest userText"
  shows "let t = processUserMessage PROMPTS this userText s net
         in outcome t = Inr ()
            \<and> system t = this
            \<and> trace t = [AgentChange (asc ''Critic'')]
            \<and> fetched (trace t) = []
            \<and> emitted (trace t) = []
            \<and> detached t = None"
  using assms by (simp add: processUserMessage_def Let_def)

text \<open>The theorem at concrete inputs of the sample runs.\<close>

theorem critic_turn_is_noop_witness:
  "currentRole (state (transitionTo (new_AgentSystem (asc ''k'') (asc ''m'')) CRITIC)) = CRITIC
   \<and> \<not> isBackwardRequest (asc ''hello'')
   \<and> system (processUserMessage (\<lambda>r. []) (transitionTo (new_AgentSystem (asc ''k'') (asc ''m'')) CRITIC)
               (asc ''hello'') \<lparr>stamp_now = 1, stamp_random = asc ''r'', stamp_time = 2\<rparr>
               (Inl NonError))
       = transitionTo (new_AgentSystem (asc ''k'') (asc ''m'')) CRITIC"
proof -
  have h1: "currentRole (state (transitionTo (new_AgentSystem (asc ''k'') (asc ''m'')) CRITIC))
              = CRITIC"
    by (simp add: transitionTo_def)
  have h2: "\<not> isBackwardRequest (asc ''hello'')"
    by (simp add: isBackwardRequest_def backwardKeywords_def includes_str_def asc_def)
  show ?thesis
    using h1 h2 critic_turn_is_noop [OF h1 h2, of "\<lambda>r. []"
        "\<lparr>stamp_now = 1, stamp_random = asc ''r'', stamp_time = 2\<rparr>" "Inl NonError"]
    by (simp add: Let_def)
qed

end
